theory Spec2Isabelle
  imports Complex_Main
begin

section \<open>Data model\<close>

text \<open>
  A float64 array element is idealised as either not-a-number or a real number
  (infinities and the rounding of float arithmetic are outside the model).
\<close>

datatype npfloat = NaN | Fin (the_real: real)

text \<open>The Python exceptions the two routines can raise.\<close>

datatype error = ValueError | IndexError

text \<open>
  A two-dimensional NumPy array: its shape and its elements. A pygrib message carries its
  pressure level (\<open>g.level\<close>) and its values (\<open>g.values\<close>, a 2D array).
\<close>

record array2d =
  nrows :: nat
  ncols :: nat
  cell :: "nat \<Rightarrow> nat \<Rightarrow> npfloat"

record message =
  level :: int
  vals :: array2d

type_synonym array3d = "array2d list"

text \<open>The inner dictionary of the U/V routine and the files of the temperature routine.\<close>

datatype csv_cell = Blank | Num int

type_synonym int_grid = "int list list"
type_synonym uv_fields = "(string \<times> int_grid) list"
type_synonym csv_rows = "csv_cell list list"
type_synonym csv_files = "((int \<times> string) \<times> csv_rows) list"

section \<open>Exceptions as values\<close>

definition bindE :: "error + 'a \<Rightarrow> ('a \<Rightarrow> error + 'b) \<Rightarrow> error + 'b" where
  "bindE m f = (case m of Inl e \<Rightarrow> Inl e | Inr x \<Rightarrow> f x)"

text \<open>A loop that builds one result per element and stops at the first exception.\<close>

fun mapE :: "('a \<Rightarrow> error + 'b) \<Rightarrow> 'a list \<Rightarrow> error + 'b list" where
  "mapE f [] = Inr []"
| "mapE f (x # xs) =
     (case f x of
        Inl e \<Rightarrow> Inl e
      | Inr y \<Rightarrow> (case mapE f xs of Inl e \<Rightarrow> Inl e | Inr ys \<Rightarrow> Inr (y # ys)))"

section \<open>Library routines used by the source\<close>

text \<open>\<open>grbs.select(...)\<close> raises ValueError when no message matches.\<close>

definition select :: "message list \<Rightarrow> error + message list" where
  "select grbs = (if grbs = [] then Inl ValueError else Inr grbs)"

text \<open>
  \<open>np.array([g.values for g in grbs])\<close>: the 2D arrays are stacked into one 3D array,
  which needs them all to have one shape.
\<close>

definition same_shape :: "array2d \<Rightarrow> array2d \<Rightarrow> bool" where
  "same_shape a b = (nrows a = nrows b \<and> ncols a = ncols b)"

definition np_array :: "array2d list \<Rightarrow> error + array3d" where
  "np_array gs =
     (case gs of
        [] \<Rightarrow> Inr []
      | g # rest \<Rightarrow> if list_all (same_shape g) rest then Inr gs else Inl ValueError)"

text \<open>\<open>arr[:, i, j]\<close> on a 3D array: the values at one grid point, one per level.\<close>

definition column :: "array3d \<Rightarrow> nat \<Rightarrow> nat \<Rightarrow> error + npfloat list" where
  "column arr i j =
     (case arr of
        [] \<Rightarrow> Inl IndexError
      | g # _ \<Rightarrow> if i < nrows g \<and> j < ncols g then Inr (map (\<lambda>a. cell a i j) arr)
                 else Inl IndexError)"

text \<open>Element-wise arithmetic on an array keeps NaN.\<close>

definition np_lift :: "(real \<Rightarrow> real) \<Rightarrow> npfloat \<Rightarrow> npfloat" where
  "np_lift f x = (case x of NaN \<Rightarrow> NaN | Fin r \<Rightarrow> Fin (f r))"

definition map_array :: "(real \<Rightarrow> real) \<Rightarrow> array2d \<Rightarrow> array2d" where
  "map_array f a = a\<lparr>cell := (\<lambda>i j. np_lift f (cell a i j))\<rparr>"

definition isnan :: "npfloat \<Rightarrow> bool" where
  "isnan x = (case x of NaN \<Rightarrow> True | Fin _ \<Rightarrow> False)"

definition any_isnan :: "npfloat list \<Rightarrow> bool" where
  "any_isnan xs = list_ex isnan xs"

text \<open>The slice \<open>profile[::-1]\<close>.\<close>

definition rev_slice :: "'a list \<Rightarrow> 'a list" where
  "rev_slice xs = rev xs"

text \<open>
  \<open>np.interp(x, xp, fp)\<close> with the default \<open>left\<close> and \<open>right\<close>: ValueError for an empty
  \<open>xp\<close> and for \<open>fp\<close> of another length; \<open>fp[-1]\<close> for \<open>x > xp[-1]\<close>, \<open>fp[0]\<close> for
  \<open>x < xp[0]\<close>; otherwise the segment \<open>j\<close> with \<open>xp[j] \<le> x < xp[j+1]\<close> is looked up and the
  value on the line through its two end points is returned. NumPy does not check that
  \<open>xp\<close> is increasing; the two end tests come in the order of the library routine,
  \<open>segment\<close> is its left-to-right scan, and on an increasing \<open>xp\<close> every search finds
  the same segment.
\<close>

definition segment :: "real \<Rightarrow> real list \<Rightarrow> nat" where
  "segment x xp = length (takeWhile (\<lambda>a. a \<le> x) (tl xp))"

definition np_interp :: "real \<Rightarrow> real list \<Rightarrow> real list \<Rightarrow> error + real" where
  "np_interp x xp fp =
     (if xp = [] then Inl ValueError
      else if length fp \<noteq> length xp then Inl ValueError
      else if x > last xp then Inr (last fp)
      else if x < hd xp then Inr (hd fp)
      else
        (let j = segment x xp in
         if j = length xp - 1 then Inr (fp ! j)
         else if xp ! j = x then Inr (fp ! j)
         else Inr ((fp ! (j + 1) - fp ! j) / (xp ! (j + 1) - xp ! j) * (x - xp ! j) + fp ! j)))"

text \<open>\<open>np.arctan2(y, x)\<close>, \<open>np.degrees\<close>, the float operator \<open>%\<close> and \<open>np.sqrt\<close>.\<close>

definition np_arctan2 :: "real \<Rightarrow> real \<Rightarrow> real" where
  "np_arctan2 y x =
     (if x > 0 then arctan (y / x)
      else if x < 0 then (if y \<ge> 0 then arctan (y / x) + pi else arctan (y / x) - pi)
      else if y > 0 then pi / 2
      else if y < 0 then - (pi / 2)
      else 0)"

definition np_degrees :: "real \<Rightarrow> real" where
  "np_degrees r = r * 180 / pi"

definition py_mod :: "real \<Rightarrow> real \<Rightarrow> real" where
  "py_mod a b = a - b * of_int \<lfloor>a / b\<rfloor>"

text \<open>
  \<open>round(x)\<close> of Python 3 on a float: the nearest integer, and the even one of the two
  when \<open>x\<close> is half way between them.
\<close>

definition py_round :: "real \<Rightarrow> int" where
  "py_round x =
     (let f = \<lfloor>x\<rfloor>; d = x - of_int f in
      if d < 1 / 2 then f
      else if d > 1 / 2 then f + 1
      else if even f then f else f + 1)"

text \<open>
  \<open>arr.astype(int)\<close> on a float array drops the fractional part. NaN and values beyond
  the 64-bit range have no integer counterpart; what the cast leaves there depends on the
  platform and is the parameter \<open>ic\<close>.
\<close>

definition trunc :: "real \<Rightarrow> int" where
  "trunc x = (if x \<ge> 0 then \<lfloor>x\<rfloor> else \<lceil>x\<rceil>)"

definition astype_int :: "(npfloat \<Rightarrow> int) \<Rightarrow> npfloat \<Rightarrow> int" where
  "astype_int ic x =
     (case x of
        NaN \<Rightarrow> ic x
      | Fin r \<Rightarrow> if - (2 ^ 63) \<le> trunc r \<and> trunc r < 2 ^ 63 then trunc r else ic x)"

section \<open>The two resampling routines\<close>

text \<open>\<open>fl_target = np.arange(0, 510, 10)\<close>.\<close>

definition fl_target :: "int list" where
  "fl_target = map (\<lambda>k. 10 * int k) [0..<51]"

text \<open>\<open>fl_3d = hgt_3d * 3.281 / 100.0\<close>.\<close>

definition to_fl :: "real \<Rightarrow> real" where
  "to_fl h = h * 3.281 / 100"

subsection \<open>src/gridded_lib.py: interpolate_uv_at_flight_levels\<close>

text \<open>The body of the two inner loops: the pair stored in \<open>u_interp[i, j]\<close>, \<open>v_interp[i, j]\<close>.\<close>

definition uv_point ::
  "array3d \<Rightarrow> array3d \<Rightarrow> array3d \<Rightarrow> int \<Rightarrow> nat \<Rightarrow> nat \<Rightarrow> error + (npfloat \<times> npfloat)" where
  "uv_point fl_3d u_3d v_3d fl i j =
     bindE (column fl_3d i j) (\<lambda>profile_fl.
     bindE (column u_3d i j) (\<lambda>profile_u.
     bindE (column v_3d i j) (\<lambda>profile_v.
       if any_isnan profile_fl \<or> any_isnan profile_u \<or> any_isnan profile_v
       then Inr (NaN, NaN)
       else
         bindE (np_interp (of_int fl) (rev_slice (map the_real profile_fl))
                  (rev_slice (map the_real profile_u))) (\<lambda>u_val.
         bindE (np_interp (of_int fl) (rev_slice (map the_real profile_fl))
                  (rev_slice (map the_real profile_v))) (\<lambda>v_val.
           Inr (Fin u_val, Fin v_val))))))"

text \<open>One pass of the outer loop: the dictionary stored under \<open>int(fl)\<close>.\<close>

definition uv_level ::
  "(npfloat \<Rightarrow> int) \<Rightarrow> array3d \<Rightarrow> array3d \<Rightarrow> array3d \<Rightarrow> nat \<Rightarrow> nat \<Rightarrow> int
     \<Rightarrow> error + uv_fields" where
  "uv_level ic fl_3d u_3d v_3d rows cols fl =
     bindE (mapE (\<lambda>i. mapE (\<lambda>j. uv_point fl_3d u_3d v_3d fl i j) [0..<cols]) [0..<rows])
       (\<lambda>cells.
          Inr [(''u'', map (map (\<lambda>c. astype_int ic (fst c))) cells),
               (''v'', map (map (\<lambda>c. astype_int ic (snd c))) cells)])"

text \<open>
  The routine, from the three selections of the GRIB file to the returned dictionary
  (an association list in insertion order; the keys are distinct). The list \<open>levels\<close>
  that the source builds from the height messages is never read again and has no
  counterpart here.
\<close>

definition interpolate_uv_at_flight_levels ::
  "(npfloat \<Rightarrow> int) \<Rightarrow> message list \<Rightarrow> message list \<Rightarrow> message list
     \<Rightarrow> error + (int \<times> uv_fields) list" where
  "interpolate_uv_at_flight_levels ic hgt_sel u_sel v_sel =
     bindE (select hgt_sel) (\<lambda>hgt_grbs.
     bindE (select u_sel) (\<lambda>u_grbs.
     bindE (select v_sel) (\<lambda>v_grbs.
     bindE (np_array (map vals hgt_grbs)) (\<lambda>hgt_3d.
     bindE (np_array (map vals u_grbs)) (\<lambda>u_3d.
     bindE (np_array (map vals v_grbs)) (\<lambda>v_3d.
       let lats = vals (hd hgt_grbs);
           fl_3d = map (map_array to_fl) hgt_3d
       in mapE (\<lambda>fl. bindE (uv_level ic fl_3d u_3d v_3d (nrows lats) (ncols lats) fl)
                        (\<lambda>d. Inr (fl, d)))
            fl_target))))))"

subsection \<open>src/blueprints/gridded_lib.py: interpolate_uv_temp_at_flight_levels\<close>

definition wind_speed :: "real \<Rightarrow> real \<Rightarrow> real" where
  "wind_speed u_val v_val = sqrt (u_val ^ 2 + v_val ^ 2)"

definition wind_direction :: "real \<Rightarrow> real \<Rightarrow> real" where
  "wind_direction u_val v_val = py_mod (270 - np_degrees (np_arctan2 v_val u_val)) 360"

text \<open>
  The body of the two inner loops: the values of \<open>temp_2d[i, j]\<close>, \<open>speed_2d[i, j]\<close> and
  \<open>dir_2d[i, j]\<close> after the pass; \<open>continue\<close> leaves the NaN the arrays were filled with.
\<close>

definition temp_point ::
  "array3d \<Rightarrow> array3d \<Rightarrow> array3d \<Rightarrow> array3d \<Rightarrow> int \<Rightarrow> nat \<Rightarrow> nat
     \<Rightarrow> error + (npfloat \<times> npfloat \<times> npfloat)" where
  "temp_point fl_3d u_3d v_3d t_3d fl i j =
     bindE (column fl_3d i j) (\<lambda>profile_fl.
     bindE (column u_3d i j) (\<lambda>profile_u.
     bindE (column v_3d i j) (\<lambda>profile_v.
     bindE (column t_3d i j) (\<lambda>profile_t.
       if any_isnan profile_fl \<or> any_isnan profile_u \<or> any_isnan profile_v
          \<or> any_isnan profile_t
       then Inr (NaN, NaN, NaN)
       else
         bindE (np_interp (of_int fl) (rev_slice (map the_real profile_fl))
                  (rev_slice (map the_real profile_u))) (\<lambda>u_val.
         bindE (np_interp (of_int fl) (rev_slice (map the_real profile_fl))
                  (rev_slice (map the_real profile_v))) (\<lambda>v_val.
         bindE (np_interp (of_int fl) (rev_slice (map the_real profile_fl))
                  (rev_slice (map the_real profile_t))) (\<lambda>t_val.
           Inr (Fin (of_int (py_round t_val)),
                Fin (of_int (py_round (wind_speed u_val v_val))),
                Fin (of_int (py_round (wind_direction u_val v_val)))))))))))"

text \<open>A CSV cell: \<open>int(round(val))\<close>, or the empty string for NaN.\<close>

definition to_csv :: "npfloat \<Rightarrow> csv_cell" where
  "to_csv val = (if isnan val then Blank else Num (py_round (the_real val)))"

text \<open>
  One pass of the outer loop: the three arrays are filled, then three files are written,
  named after the flight level and Temp, Dir, Spd.
\<close>

definition temp_level ::
  "array3d \<Rightarrow> array3d \<Rightarrow> array3d \<Rightarrow> array3d \<Rightarrow> nat \<Rightarrow> nat \<Rightarrow> int \<Rightarrow> error + csv_files" where
  "temp_level fl_3d u_3d v_3d t_3d rows cols fl =
     bindE (mapE (\<lambda>i. mapE (\<lambda>j. temp_point fl_3d u_3d v_3d t_3d fl i j) [0..<cols])
              [0..<rows])
       (\<lambda>cells.
          Inr [((fl, ''Temp''), map (map (\<lambda>c. to_csv (fst c))) cells),
               ((fl, ''Dir''), map (map (\<lambda>c. to_csv (snd (snd c)))) cells),
               ((fl, ''Spd''), map (map (\<lambda>c. to_csv (fst (snd c)))) cells)])"

text \<open>
  The outer loop, with the files written so far as its state: an exception stops the
  loop and leaves the files of the earlier passes in place.
\<close>

fun write_levels ::
  "(int \<Rightarrow> error + csv_files) \<Rightarrow> int list \<Rightarrow> csv_files \<Rightarrow> csv_files \<times> error option" where
  "write_levels body [] files = (files, None)"
| "write_levels body (fl # fls) files =
     (case body fl of
        Inl e \<Rightarrow> (files, Some e)
      | Inr written \<Rightarrow> write_levels body fls (files @ written))"

text \<open>
  The routine returns nothing; its result is the set of files it has written and the
  exception it ended with, if any.
\<close>

definition interpolate_uv_temp_at_flight_levels ::
  "message list \<Rightarrow> message list \<Rightarrow> message list \<Rightarrow> message list
     \<Rightarrow> csv_files \<times> error option" where
  "interpolate_uv_temp_at_flight_levels hgt_sel u_sel v_sel t_sel =
     (case
        bindE (select hgt_sel) (\<lambda>hgt_grbs.
        bindE (select u_sel) (\<lambda>u_grbs.
        bindE (select v_sel) (\<lambda>v_grbs.
        bindE (select t_sel) (\<lambda>t_grbs.
        bindE (np_array (map vals hgt_grbs)) (\<lambda>hgt_3d.
        bindE (np_array (map vals u_grbs)) (\<lambda>u_3d.
        bindE (np_array (map vals v_grbs)) (\<lambda>v_3d.
        bindE (np_array (map vals t_grbs)) (\<lambda>t_raw.
          Inr (vals (hd hgt_grbs), map (map_array to_fl) hgt_3d, u_3d, v_3d,
               map (map_array (\<lambda>t. t - 273.15)) t_raw)))))))))
      of
        Inl e \<Rightarrow> ([], Some e)
      | Inr (lats, fl_3d, u_3d, v_3d, t_3d) \<Rightarrow>
          write_levels (temp_level fl_3d u_3d v_3d t_3d (nrows lats) (ncols lats))
            fl_target [])"

section \<open>Reading the results\<close>

text \<open>Element \<open>[i][j]\<close> of a nested list, where it exists.\<close>

definition grid_at :: "'a list list \<Rightarrow> nat \<Rightarrow> nat \<Rightarrow> 'a option" where
  "grid_at g i j = (if i < length g \<and> j < length (g ! i) then Some (g ! i ! j) else None)"

text \<open>A nested list with \<open>r\<close> rows of \<open>c\<close> elements each.\<close>

definition has_shape :: "'a list list \<Rightarrow> nat \<Rightarrow> nat \<Rightarrow> bool" where
  "has_shape g r c = (length g = r \<and> list_all (\<lambda>row. length row = c) g)"

text \<open>\<open>interpolated[fl][name][i][j]\<close> of the returned dictionary.\<close>

definition uv_at :: "(int \<times> uv_fields) list \<Rightarrow> int \<Rightarrow> string \<Rightarrow> nat \<Rightarrow> nat \<Rightarrow> int option" where
  "uv_at out fl name i j =
     (case map_of out fl of
        None \<Rightarrow> None
      | Some d \<Rightarrow> (case map_of d name of None \<Rightarrow> None | Some g \<Rightarrow> grid_at g i j))"

text \<open>Row \<open>i\<close>, column \<open>j\<close> of the file written for a flight level and a quantity.\<close>

definition csv_at :: "csv_files \<Rightarrow> int \<Rightarrow> string \<Rightarrow> nat \<Rightarrow> nat \<Rightarrow> csv_cell option" where
  "csv_at files fl name i j =
     (case map_of files (fl, name) of None \<Rightarrow> None | Some g \<Rightarrow> grid_at g i j)"

text \<open>
  The vertical profile of a selection at a grid point, in message order, and the
  grid of the routine: the shape of \<open>lats\<close>, taken from the first height message.
\<close>

definition profile :: "message list \<Rightarrow> nat \<Rightarrow> nat \<Rightarrow> npfloat list" where
  "profile grbs i j = map (\<lambda>g. cell (vals g) i j) grbs"

definition grid_rows :: "message list \<Rightarrow> nat" where
  "grid_rows hgt_grbs = nrows (vals (hd hgt_grbs))"

definition grid_cols :: "message list \<Rightarrow> nat" where
  "grid_cols hgt_grbs = ncols (vals (hd hgt_grbs))"

definition in_grid :: "message list \<Rightarrow> nat \<Rightarrow> nat \<Rightarrow> bool" where
  "in_grid hgt_grbs i j = (i < grid_rows hgt_grbs \<and> j < grid_cols hgt_grbs)"

text \<open>
  The values of a NaN-free profile, and the flight levels the heights of a point
  convert to.
\<close>

definition reals :: "message list \<Rightarrow> nat \<Rightarrow> nat \<Rightarrow> real list" where
  "reals grbs i j = map the_real (profile grbs i j)"

definition fl_profile :: "message list \<Rightarrow> nat \<Rightarrow> nat \<Rightarrow> real list" where
  "fl_profile hgt_grbs i j = map to_fl (reals hgt_grbs i j)"

text \<open>The profile of a selection at a grid point holds a NaN at some level.\<close>

definition has_nan :: "message list \<Rightarrow> nat \<Rightarrow> nat \<Rightarrow> bool" where
  "has_nan grbs i j = any_isnan (profile grbs i j)"

text \<open>The arrays \<open>fl_3d\<close> and \<open>t_3d\<close> of the source, for given selections.\<close>

definition fl_3d_of :: "message list \<Rightarrow> array3d" where
  "fl_3d_of hgt_grbs = map (map_array to_fl) (map vals hgt_grbs)"

definition t_3d_of :: "message list \<Rightarrow> array3d" where
  "t_3d_of t_grbs = map (map_array (\<lambda>t. t - 273.15)) (map vals t_grbs)"

text \<open>A selection the routine can stack: at least one message, all of one shape.\<close>

definition stackable :: "message list \<Rightarrow> bool" where
  "stackable grbs = (grbs \<noteq> [] \<and> list_all (\<lambda>g. same_shape (vals (hd grbs)) (vals g)) grbs)"

text \<open>An array from its rows, and a message from its level and rows.\<close>

definition from_rows :: "npfloat list list \<Rightarrow> array2d" where
  "from_rows rows =
     \<lparr>nrows = length rows, ncols = length (hd rows), cell = (\<lambda>i j. rows ! i ! j)\<rparr>"

definition msg :: "int \<Rightarrow> npfloat list list \<Rightarrow> message" where
  "msg l rows = \<lparr>level = l, vals = from_rows rows\<rparr>"

text \<open>The cast of x86-64: NaN and out-of-range values become the least 64-bit integer.\<close>

definition cast_x86 :: "npfloat \<Rightarrow> int" where
  "cast_x86 x = - (2 ^ 63)"

section \<open>Rounding, in the words of the specification\<close>




section \<open>Sample inputs\<close>

text \<open>
  A file with one grid point and two levels, the higher level first: heights of 3000 m
  and 1000 m, an eastward wind of 30 and 10, temperatures of 263.15 K and 283.15 K.
\<close>

definition two_level_hgt :: "message list" where
  "two_level_hgt = [msg 700 [[Fin 3000]], msg 900 [[Fin 1000]]]"

definition two_level_u :: "message list" where
  "two_level_u = [msg 700 [[Fin 30]], msg 900 [[Fin 10]]]"

definition two_level_v :: "message list" where
  "two_level_v = [msg 700 [[Fin 0]], msg 900 [[Fin 0]]]"

definition two_level_t :: "message list" where
  "two_level_t = [msg 700 [[Fin 263.15]], msg 900 [[Fin 283.15]]]"

text \<open>
  A 2x2 grid with three levels, the highest first: at every point the heights convert
  to flight levels 250, 150 and 50; at point (0, 0) U is 30, 20, 10 and V is 0.
\<close>

definition scenario_hgt :: "message list" where
  "scenario_hgt =
     [msg 400 [[Fin (25000 / 3.281), Fin (25000 / 3.281)], [Fin (25000 / 3.281), Fin (25000 / 3.281)]],
      msg 600 [[Fin (15000 / 3.281), Fin (15000 / 3.281)], [Fin (15000 / 3.281), Fin (15000 / 3.281)]],
      msg 850 [[Fin (5000 / 3.281), Fin (5000 / 3.281)], [Fin (5000 / 3.281), Fin (5000 / 3.281)]]]"

definition scenario_u :: "message list" where
  "scenario_u =
     [msg 400 [[Fin 30, Fin 12], [Fin 8, Fin 5]],
      msg 600 [[Fin 20, Fin 9], [Fin 6, Fin 4]],
      msg 850 [[Fin 10, Fin 7], [Fin 3, Fin 2]]]"

definition scenario_v :: "message list" where
  "scenario_v =
     [msg 400 [[Fin 0, Fin 4], [Fin 1, Fin 2]],
      msg 600 [[Fin 0, Fin 3], [Fin 1, Fin 2]],
      msg 850 [[Fin 0, Fin 2], [Fin 1, Fin 2]]]"

definition scenario_t :: "message list" where
  "scenario_t =
     [msg 400 [[Fin 243.15, Fin 243.15], [Fin 243.15, Fin 243.15]],
      msg 600 [[Fin 263.15, Fin 263.15], [Fin 263.15, Fin 263.15]],
      msg 850 [[Fin 283.15, Fin 283.15], [Fin 283.15, Fin 283.15]]]"

section \<open>Auxiliary lemmas\<close>

lemma bindE_Inr [simp]: "bindE (Inr x) f = f x"
  by (simp add: bindE_def)

lemma bindE_Inl [simp]: "bindE (Inl e) f = Inl e"
  by (simp add: bindE_def)

lemma bindE_eq_Inr: "bindE m f = Inr y \<longleftrightarrow> (\<exists>x. m = Inr x \<and> f x = Inr y)"
  by (cases m) simp_all

lemma mapE_Inr_iff: "mapE f xs = Inr ys \<longleftrightarrow> list_all2 (\<lambda>x y. f x = Inr y) xs ys"
proof (induction xs arbitrary: ys)
  case Nil
  show ?case by auto
next
  case (Cons x xs)
  show ?case
  proof (cases "f x")
    case (Inl e)
    then show ?thesis by (auto simp: list_all2_Cons1)
  next
    case (Inr y)
    show ?thesis
    proof (cases "mapE f xs")
      case (Inl e)
      with Inr Cons.IH show ?thesis by (auto simp: list_all2_Cons1)
    next
      case inner: (Inr zs)
      with Inr Cons.IH show ?thesis by (auto simp: list_all2_Cons1)
    qed
  qed
qed

lemma mapE_upt: "mapE f [0..<n] = Inr ys \<longleftrightarrow> length ys = n \<and> (\<forall>k<n. f k = Inr (ys ! k))"
  by (auto simp: mapE_Inr_iff list_all2_conv_all_nth)

lemma mapE_Inl_ex: "mapE f xs = Inl e \<Longrightarrow> \<exists>x\<in>set xs. f x = Inl e"
  by (induction xs) (auto split: sum.splits)

lemma mapE_map: "(\<And>x. x \<in> set xs \<Longrightarrow> f x = Inr (g x)) \<Longrightarrow> mapE f xs = Inr (map g xs)"
  by (induction xs) auto

lemma mapE_fails: "x \<in> set xs \<Longrightarrow> f x = Inl e \<Longrightarrow> \<exists>e'. mapE f xs = Inl e'"
  by (induction xs) (auto split: sum.splits)

lemma same_shape_refl [simp]: "same_shape a a"
  by (simp add: same_shape_def)

lemma select_stackable: "stackable g \<Longrightarrow> select g = Inr g"
  by (simp add: stackable_def select_def)

lemma np_array_stackable: "stackable g \<Longrightarrow> np_array (map vals g) = Inr (map vals g)"
  by (cases g) (auto simp: stackable_def np_array_def list_all_iff)

lemma not_stackable:
  "\<not> stackable g \<Longrightarrow> select g = Inl ValueError \<or> np_array (map vals g) = Inl ValueError"
  by (cases g) (auto simp: stackable_def np_array_def select_def list_all_iff)

lemma column_stackable:
  "stackable g \<Longrightarrow> column (map vals g) i j =
     (if i < grid_rows g \<and> j < grid_cols g then Inr (profile g i j) else Inl IndexError)"
  by (cases g) (auto simp: stackable_def column_def grid_rows_def grid_cols_def profile_def comp_def)

lemma column_map_array:
  "column (map (map_array f) arr) i j =
     (case column arr i j of Inl e \<Rightarrow> Inl e | Inr p \<Rightarrow> Inr (map (np_lift f) p))"
  by (cases arr) (auto simp: column_def map_array_def comp_def)

lemma any_isnan_lift [simp]: "any_isnan (map (np_lift f) p) = any_isnan p"
  by (induction p) (auto simp: any_isnan_def np_lift_def isnan_def split: npfloat.splits)

lemma the_real_lift: "\<not> any_isnan p \<Longrightarrow> map the_real (map (np_lift f) p) = map f (map the_real p)"
  by (induction p) (auto simp: any_isnan_def np_lift_def isnan_def split: npfloat.splits)

lemma np_interp_total:
  "xp \<noteq> [] \<Longrightarrow> length fp = length xp \<Longrightarrow> \<exists>y. np_interp x xp fp = Inr y"
  by (simp add: np_interp_def Let_def)

lemma np_interp_error:
  "np_interp x xp fp = Inl e \<longleftrightarrow> (xp = [] \<or> length fp \<noteq> length xp) \<and> e = ValueError"
  by (auto simp: np_interp_def Let_def)

lemma column_lifted:
  "stackable g \<Longrightarrow> column (map (map_array f) (map vals g)) i j =
     (if in_grid g i j then Inr (map (np_lift f) (profile g i j)) else Inl IndexError)"
  by (simp add: column_map_array column_stackable in_grid_def del: map_map)

lemma column_plain:
  "stackable g \<Longrightarrow> column (map vals g) i j =
     (if in_grid g i j then Inr (profile g i j) else Inl IndexError)"
  by (simp add: column_stackable in_grid_def)

lemma uv_point_eq:
  assumes "stackable h" "stackable u" "stackable v" "in_grid h i j"
  shows "uv_point (fl_3d_of h) (map vals u) (map vals v) fl i j =
     (if \<not> in_grid u i j then Inl IndexError
      else if \<not> in_grid v i j then Inl IndexError
      else if has_nan h i j \<or> has_nan u i j \<or> has_nan v i j
      then Inr (NaN, NaN)
      else
        bindE (np_interp (of_int fl) (rev (fl_profile h i j)) (rev (reals u i j))) (\<lambda>u_val.
        bindE (np_interp (of_int fl) (rev (fl_profile h i j)) (rev (reals v i j))) (\<lambda>v_val.
          Inr (Fin u_val, Fin v_val))))"
  using assms
  by (simp add: uv_point_def has_nan_def fl_3d_of_def column_lifted column_plain the_real_lift
      fl_profile_def reals_def rev_slice_def del: map_map)

lemma temp_point_eq:
  assumes "stackable h" "stackable u" "stackable v" "stackable t" "in_grid h i j"
  shows "temp_point (fl_3d_of h) (map vals u) (map vals v)
           (t_3d_of t) fl i j =
     (if \<not> in_grid u i j then Inl IndexError
      else if \<not> in_grid v i j then Inl IndexError
      else if \<not> in_grid t i j then Inl IndexError
      else if has_nan h i j \<or> has_nan u i j \<or> has_nan v i j
              \<or> has_nan t i j
      then Inr (NaN, NaN, NaN)
      else
        bindE (np_interp (of_int fl) (rev (fl_profile h i j)) (rev (reals u i j))) (\<lambda>u_val.
        bindE (np_interp (of_int fl) (rev (fl_profile h i j)) (rev (reals v i j))) (\<lambda>v_val.
        bindE (np_interp (of_int fl) (rev (fl_profile h i j))
                 (rev (map (\<lambda>t. t - 273.15) (reals t i j)))) (\<lambda>t_val.
          Inr (Fin (of_int (py_round t_val)),
               Fin (of_int (py_round (wind_speed u_val v_val))),
               Fin (of_int (py_round (wind_direction u_val v_val))))))))"
  using assms
  by (simp add: temp_point_def has_nan_def fl_3d_of_def t_3d_of_def column_lifted column_plain
      the_real_lift fl_profile_def reals_def rev_slice_def del: map_map)

lemma select_np_array:
  "bindE (select g) (\<lambda>g'. F g') = (if g = [] then Inl ValueError else F g)"
  by (simp add: select_def)

lemma np_array_cases:
  "g \<noteq> [] \<Longrightarrow> np_array (map vals g) = (if stackable g then Inr (map vals g) else Inl ValueError)"
  by (cases g) (auto simp: stackable_def np_array_def list_all_iff)

lemma stackable_nonempty: "stackable g \<Longrightarrow> g \<noteq> []"
  by (simp add: stackable_def)

lemma interpolate_uv_stackable:
  assumes "stackable h" "stackable u" "stackable v"
  shows "interpolate_uv_at_flight_levels ic h u v =
     mapE (\<lambda>fl. bindE (uv_level ic (fl_3d_of h) (map vals u) (map vals v)
                          (grid_rows h) (grid_cols h) fl) (\<lambda>d. Inr (fl, d))) fl_target"
  using assms
  by (simp add: interpolate_uv_at_flight_levels_def select_np_array np_array_cases
      stackable_nonempty grid_rows_def grid_cols_def fl_3d_of_def Let_def del: map_map)

lemma interpolate_uv_not_stackable:
  assumes "\<not> (stackable h \<and> stackable u \<and> stackable v)"
  shows "interpolate_uv_at_flight_levels ic h u v = Inl ValueError"
proof (cases "h = [] \<or> u = [] \<or> v = []")
  case True
  then show ?thesis
    by (auto simp: interpolate_uv_at_flight_levels_def select_np_array)
next
  case False
  with assms show ?thesis
    by (auto simp: interpolate_uv_at_flight_levels_def select_np_array np_array_cases
        simp del: map_map)
qed

lemma mapE_keyed:
  assumes "mapE (\<lambda>k. bindE (F k) (\<lambda>d. Inr (k, d))) ks = Inr out"
  shows "map fst out = ks \<and> (\<forall>k\<in>set ks. \<exists>d. F k = Inr d \<and> map_of out k = Some d)"
  using assms
proof (induction ks arbitrary: out)
  case Nil
  then show ?case by simp
next
  case (Cons k ks)
  from Cons.prems obtain d rest where d: "F k = Inr d" and rest:
    "mapE (\<lambda>k. bindE (F k) (\<lambda>d. Inr (k, d))) ks = Inr rest" and out: "out = (k, d) # rest"
    by (auto split: sum.splits simp: bindE_eq_Inr)
  from Cons.IH [OF rest] d out show ?case by auto
qed

lemma mapE_keyed_total:
  assumes "\<forall>k\<in>set ks. \<exists>d. F k = Inr d"
  shows "\<exists>out. mapE (\<lambda>k. bindE (F k) (\<lambda>d. Inr (k, d))) ks = Inr out"
  using assms by (induction ks) auto

lemma mapE_upt_total:
  assumes "\<forall>k<n. \<exists>y. f k = Inr y"
  shows "\<exists>ys. mapE f [0..<n] = Inr ys"
proof -
  have "mapE f [0..<n] = Inr (map (\<lambda>k. projr (f k)) [0..<n])"
    using assms by (intro mapE_map) auto
  then show ?thesis ..
qed

lemma grid_at_map:
  "i < length cells \<Longrightarrow> j < length (cells ! i) \<Longrightarrow>
     grid_at (map (map f) cells) i j = Some (f (cells ! i ! j))"
  by (simp add: grid_at_def)

lemma uv_level_cell:
  assumes "uv_level ic FL U V R C fl = Inr d" "i < R" "j < C"
  shows "\<exists>p gu gv. uv_point FL U V fl i j = Inr p \<and> d = [(''u'', gu), (''v'', gv)]
           \<and> grid_at gu i j = Some (astype_int ic (fst p))
           \<and> grid_at gv i j = Some (astype_int ic (snd p))"
proof -
  from assms(1) obtain cells where
    cells: "mapE (\<lambda>i. mapE (\<lambda>j. uv_point FL U V fl i j) [0..<C]) [0..<R] = Inr cells"
    and d: "d = [(''u'', map (map (\<lambda>c. astype_int ic (fst c))) cells),
                 (''v'', map (map (\<lambda>c. astype_int ic (snd c))) cells)]"
    by (auto simp: uv_level_def bindE_eq_Inr)
  from cells have len: "length cells = R"
    and rows: "\<forall>i<R. mapE (\<lambda>j. uv_point FL U V fl i j) [0..<C] = Inr (cells ! i)"
    by (simp_all add: mapE_upt)
  from rows assms(2) have row: "length (cells ! i) = C"
    and pts: "\<forall>j<C. uv_point FL U V fl i j = Inr (cells ! i ! j)"
    by (simp_all add: mapE_upt)
  from pts assms(3) have "uv_point FL U V fl i j = Inr (cells ! i ! j)" by simp
  moreover have "grid_at (map (map (\<lambda>c. astype_int ic (fst c))) cells) i j
      = Some (astype_int ic (fst (cells ! i ! j)))"
    using len row assms(2,3) by (simp add: grid_at_map)
  moreover have "grid_at (map (map (\<lambda>c. astype_int ic (snd c))) cells) i j
      = Some (astype_int ic (snd (cells ! i ! j)))"
    using len row assms(2,3) by (simp add: grid_at_map)
  ultimately show ?thesis using d by blast
qed

lemma uv_level_shape:
  assumes "uv_level ic FL U V R C fl = Inr d"
  shows "\<exists>gu gv. d = [(''u'', gu), (''v'', gv)] \<and> length gu = R \<and> length gv = R
           \<and> list_all (\<lambda>row. length row = C) gu \<and> list_all (\<lambda>row. length row = C) gv"
proof -
  from assms obtain cells where
    cells: "mapE (\<lambda>i. mapE (\<lambda>j. uv_point FL U V fl i j) [0..<C]) [0..<R] = Inr cells"
    and d: "d = [(''u'', map (map (\<lambda>c. astype_int ic (fst c))) cells),
                 (''v'', map (map (\<lambda>c. astype_int ic (snd c))) cells)]"
    by (auto simp: uv_level_def bindE_eq_Inr)
  from cells have len: "length cells = R"
    and rows: "\<forall>i<R. mapE (\<lambda>j. uv_point FL U V fl i j) [0..<C] = Inr (cells ! i)"
    by (simp_all add: mapE_upt)
  have "\<forall>i<length cells. length (cells ! i) = C"
    using rows len by (simp add: mapE_upt)
  then have "list_all (\<lambda>row. length row = C) cells"
    by (simp add: list_all_length)
  then show ?thesis using d len by (simp add: list_all_iff)
qed

lemma uv_level_total:
  assumes "\<forall>i<R. \<forall>j<C. \<exists>p. uv_point FL U V fl i j = Inr p"
  shows "\<exists>d. uv_level ic FL U V R C fl = Inr d"
proof -
  have "\<forall>i<R. \<exists>row. mapE (\<lambda>j. uv_point FL U V fl i j) [0..<C] = Inr row"
  proof (intro allI impI)
    fix i assume "i < R"
    with assms have "\<forall>j<C. \<exists>p. uv_point FL U V fl i j = Inr p" by simp
    then show "\<exists>row. mapE (\<lambda>j. uv_point FL U V fl i j) [0..<C] = Inr row"
      by (rule mapE_upt_total)
  qed
  then have "\<exists>cells. mapE (\<lambda>i. mapE (\<lambda>j. uv_point FL U V fl i j) [0..<C]) [0..<R] = Inr cells"
    by (rule mapE_upt_total)
  then obtain cells where
    "mapE (\<lambda>i. mapE (\<lambda>j. uv_point FL U V fl i j) [0..<C]) [0..<R] = Inr cells" ..
  then show ?thesis by (simp add: uv_level_def)
qed

lemma length_fl_profile [simp]: "length (fl_profile h i j) = length h"
  by (simp add: fl_profile_def reals_def profile_def)

lemma length_reals [simp]: "length (reals g i j) = length g"
  by (simp add: reals_def profile_def)

lemma fl_profile_nonempty: "stackable h \<Longrightarrow> fl_profile h i j \<noteq> []"
  by (auto simp: stackable_def fl_profile_def reals_def profile_def)

lemma isr_iff: "(\<exists>y. m = Inr y) \<longleftrightarrow> \<not> isl m"
  by (cases m) simp_all

lemma isl_bindE: "isl (bindE m f) \<longleftrightarrow> (case m of Inl e \<Rightarrow> True | Inr x \<Rightarrow> isl (f x))"
  by (cases m) simp_all

lemma isl_np_interp: "isl (np_interp x xp fp) \<longleftrightarrow> xp = [] \<or> length fp \<noteq> length xp"
  by (simp add: np_interp_def Let_def)

lemma np_interp_isr:
  "(\<exists>y. np_interp x xp fp = Inr y) \<longleftrightarrow> xp \<noteq> [] \<and> length fp = length xp"
  by (auto simp: np_interp_def Let_def)

lemma np_interp_cases:
  "np_interp x xp fp = Inl ValueError \<or> (\<exists>y. np_interp x xp fp = Inr y)"
  by (simp add: np_interp_def Let_def)

lemma isl_interp_bind:
  "isl (bindE (np_interp x xp fp) f) \<longleftrightarrow>
     xp = [] \<or> length fp \<noteq> length xp \<or> (\<exists>y. np_interp x xp fp = Inr y \<and> isl (f y))"
  using np_interp_cases [of x xp fp] isl_np_interp [of x xp fp]
  by (auto simp: isl_bindE split: sum.splits)

lemma uv_point_isl:
  assumes "stackable h" "stackable u" "stackable v" "in_grid h i j"
  shows "isl (uv_point (fl_3d_of h) (map vals u) (map vals v) fl i j)
     \<longleftrightarrow> \<not> (in_grid u i j \<and> in_grid v i j
          \<and> (has_nan h i j \<or> has_nan u i j \<or> has_nan v i j
               \<or> (length u = length h \<and> length v = length h)))"
proof -
  have ne: "rev (fl_profile h i j) \<noteq> []"
    using fl_profile_nonempty [OF assms(1)] by simp
  show ?thesis
    unfolding uv_point_eq [OF assms]
    using ne by (auto simp: isl_interp_bind isl_np_interp np_interp_isr)
qed

lemma uv_point_isr:
  assumes "stackable h" "stackable u" "stackable v" "in_grid h i j"
  shows "(\<exists>p. uv_point (fl_3d_of h) (map vals u) (map vals v) fl i j = Inr p)
     \<longleftrightarrow> in_grid u i j \<and> in_grid v i j
          \<and> (has_nan h i j \<or> has_nan u i j \<or> has_nan v i j
               \<or> (length u = length h \<and> length v = length h))"
  unfolding isr_iff uv_point_isl [OF assms] by blast

lemma uv_output:
  assumes run: "interpolate_uv_at_flight_levels ic h u v = Inr out"
    and fl: "fl \<in> set fl_target" and pt: "in_grid h i j"
  shows "stackable h \<and> stackable u \<and> stackable v \<and>
     (\<exists>p. uv_point (fl_3d_of h) (map vals u) (map vals v) fl i j = Inr p
        \<and> uv_at out fl ''u'' i j = Some (astype_int ic (fst p))
        \<and> uv_at out fl ''v'' i j = Some (astype_int ic (snd p)))"
proof -
  have st: "stackable h \<and> stackable u \<and> stackable v"
    using run interpolate_uv_not_stackable [of h u v ic] by auto
  then have "mapE (\<lambda>fl. bindE (uv_level ic (fl_3d_of h) (map vals u)
                (map vals v) (grid_rows h) (grid_cols h) fl) (\<lambda>d. Inr (fl, d))) fl_target = Inr out"
    using run by (simp add: interpolate_uv_stackable)
  from mapE_keyed [OF this] fl obtain d where
    d: "uv_level ic (fl_3d_of h) (map vals u) (map vals v)
          (grid_rows h) (grid_cols h) fl = Inr d"
    and look: "map_of out fl = Some d"
    by blast
  from pt have "i < grid_rows h" "j < grid_cols h" by (simp_all add: in_grid_def)
  from uv_level_cell [OF d this] obtain p gu gv where
    p: "uv_point (fl_3d_of h) (map vals u) (map vals v) fl i j = Inr p"
    and dd: "d = [(''u'', gu), (''v'', gv)]"
    and gu: "grid_at gu i j = Some (astype_int ic (fst p))"
    and gv: "grid_at gv i j = Some (astype_int ic (snd p))"
    by blast
  have "uv_at out fl ''u'' i j = Some (astype_int ic (fst p))"
    using look dd gu by (simp add: uv_at_def)
  moreover have "uv_at out fl ''v'' i j = Some (astype_int ic (snd p))"
    using look dd gv by (simp add: uv_at_def)
  ultimately show ?thesis using st p by blast
qed

lemma fl_target_nonempty: "0 \<in> set fl_target"
  by (simp add: fl_target_def image_iff)

lemma uv_runs_iff:
  "(\<exists>out. interpolate_uv_at_flight_levels ic h u v = Inr out) \<longleftrightarrow>
     stackable h \<and> stackable u \<and> stackable v \<and>
     (\<forall>i j. in_grid h i j \<longrightarrow>
        in_grid u i j \<and> in_grid v i j
        \<and> (has_nan h i j \<or> has_nan u i j \<or> has_nan v i j
             \<or> (length u = length h \<and> length v = length h)))"
  (is "?L \<longleftrightarrow> ?R")
proof
  assume ?L
  then obtain out where run: "interpolate_uv_at_flight_levels ic h u v = Inr out" ..
  have st: "stackable h \<and> stackable u \<and> stackable v"
    using run interpolate_uv_not_stackable [of h u v ic] by auto
  have "in_grid u i j \<and> in_grid v i j
        \<and> (has_nan h i j \<or> has_nan u i j \<or> has_nan v i j
             \<or> (length u = length h \<and> length v = length h))" if pt: "in_grid h i j" for i j
  proof -
    from uv_output [OF run fl_target_nonempty pt] have
      "\<exists>p. uv_point (fl_3d_of h) (map vals u) (map vals v) 0 i j = Inr p"
      by blast
    with st pt show ?thesis using uv_point_isr [of h u v i j 0] by blast
  qed
  with st show ?R by blast
next
  assume r: ?R
  then have st: "stackable h" "stackable u" "stackable v" by simp_all
  have "\<exists>d. uv_level ic (fl_3d_of h) (map vals u) (map vals v)
          (grid_rows h) (grid_cols h) fl = Inr d" for fl
  proof (rule uv_level_total, intro allI impI)
    fix i j assume "i < grid_rows h" "j < grid_cols h"
    then have pt: "in_grid h i j" by (simp add: in_grid_def)
    with r show "\<exists>p. uv_point (fl_3d_of h) (map vals u) (map vals v)
        fl i j = Inr p"
      unfolding uv_point_isr [OF st pt] by blast
  qed
  then have "\<exists>out. mapE (\<lambda>fl. bindE (uv_level ic (fl_3d_of h)
      (map vals u) (map vals v) (grid_rows h) (grid_cols h) fl) (\<lambda>d. Inr (fl, d))) fl_target = Inr out"
    by (intro mapE_keyed_total) simp
  then show ?L using st by (simp add: interpolate_uv_stackable)
qed

lemma isl_mapE: "isl (mapE f xs) \<longleftrightarrow> (\<exists>x\<in>set xs. isl (f x))"
  by (induction xs) (auto split: sum.splits)

lemma interpolate_uv_temp_stackable:
  assumes "stackable h" "stackable u" "stackable v" "stackable t"
  shows "interpolate_uv_temp_at_flight_levels h u v t =
     write_levels (temp_level (fl_3d_of h) (map vals u) (map vals v) (t_3d_of t)
                     (grid_rows h) (grid_cols h)) fl_target []"
  using assms
  by (simp add: interpolate_uv_temp_at_flight_levels_def select_np_array np_array_cases
      stackable_nonempty grid_rows_def grid_cols_def fl_3d_of_def t_3d_of_def del: map_map)

lemma interpolate_uv_temp_not_stackable:
  assumes "\<not> (stackable h \<and> stackable u \<and> stackable v \<and> stackable t)"
  shows "interpolate_uv_temp_at_flight_levels h u v t = ([], Some ValueError)"
proof (cases "h = [] \<or> u = [] \<or> v = [] \<or> t = []")
  case True
  then show ?thesis
    by (auto simp: interpolate_uv_temp_at_flight_levels_def select_np_array)
next
  case False
  with assms show ?thesis
    by (auto simp: interpolate_uv_temp_at_flight_levels_def select_np_array np_array_cases
        simp del: map_map)
qed

lemma write_levels_None:
  "write_levels body fls files = (files', None) \<Longrightarrow>
     files' = files @ concat (map (\<lambda>fl. projr (body fl)) fls) \<and> (\<forall>fl\<in>set fls. \<not> isl (body fl))"
proof (induction fls arbitrary: files)
  case Nil
  then show ?case by simp
next
  case (Cons fl fls)
  show ?case
  proof (cases "body fl")
    case (Inl e)
    with Cons.prems show ?thesis by simp
  next
    case (Inr w)
    with Cons.prems have "write_levels body fls (files @ w) = (files', None)" by simp
    from Cons.IH [OF this] Inr show ?thesis by simp
  qed
qed

lemma write_levels_total:
  "\<forall>fl\<in>set fls. \<not> isl (body fl) \<Longrightarrow>
     write_levels body fls files = (files @ concat (map (\<lambda>fl. projr (body fl)) fls), None)"
proof (induction fls arbitrary: files)
  case Nil
  then show ?case by simp
next
  case (Cons fl fls)
  then show ?case by (cases "body fl") auto
qed

lemma write_levels_first:
  "body fl = Inl e \<Longrightarrow> write_levels body (fl # fls) files = (files, Some e)"
  by simp

lemma map_of_concat_levels:
  assumes "\<forall>k\<in>set ks. \<forall>key\<in>fst ` set (G k). fst key = k"
  shows "map_of (concat (map G ks)) (k, n) = (if k \<in> set ks then map_of (G k) (k, n) else None)"
  using assms
proof (induction ks)
  case Nil
  then show ?case by simp
next
  case (Cons a ks)
  then have ih: "map_of (concat (map G ks)) (k, n) =
      (if k \<in> set ks then map_of (G k) (k, n) else None)" by simp
  show ?case
  proof (cases "a = k")
    case True
    then show ?thesis using ih
      by (cases "map_of (G k) (k, n)") (simp_all add: map_add_def)
  next
    case False
    have "(k, n) \<notin> fst ` set (G a)"
    proof
      assume "(k, n) \<in> fst ` set (G a)"
      moreover from Cons.prems have "\<forall>key\<in>fst ` set (G a). fst key = a" by simp
      ultimately have "fst (k, n) = a" by blast
      with False show False by simp
    qed
    then have "map_of (G a) (k, n) = None" by (simp add: map_of_eq_None_iff)
    with False ih show ?thesis by (simp add: map_add_def)
  qed
qed

lemma temp_level_cell:
  assumes "temp_level FL U V T R C fl = Inr w" "i < R" "j < C"
  shows "\<exists>p gt gd gs. temp_point FL U V T fl i j = Inr p
           \<and> w = [((fl, ''Temp''), gt), ((fl, ''Dir''), gd), ((fl, ''Spd''), gs)]
           \<and> grid_at gt i j = Some (to_csv (fst p))
           \<and> grid_at gd i j = Some (to_csv (snd (snd p)))
           \<and> grid_at gs i j = Some (to_csv (fst (snd p)))"
proof -
  from assms(1) obtain cells where
    cells: "mapE (\<lambda>i. mapE (\<lambda>j. temp_point FL U V T fl i j) [0..<C]) [0..<R] = Inr cells"
    and w: "w = [((fl, ''Temp''), map (map (\<lambda>c. to_csv (fst c))) cells),
                 ((fl, ''Dir''), map (map (\<lambda>c. to_csv (snd (snd c)))) cells),
                 ((fl, ''Spd''), map (map (\<lambda>c. to_csv (fst (snd c)))) cells)]"
    by (auto simp: temp_level_def bindE_eq_Inr)
  from cells have len: "length cells = R"
    and rows: "\<forall>i<R. mapE (\<lambda>j. temp_point FL U V T fl i j) [0..<C] = Inr (cells ! i)"
    by (simp_all add: mapE_upt)
  from rows assms(2) have row: "length (cells ! i) = C"
    and pts: "\<forall>j<C. temp_point FL U V T fl i j = Inr (cells ! i ! j)"
    by (simp_all add: mapE_upt)
  from pts assms(3) have "temp_point FL U V T fl i j = Inr (cells ! i ! j)" by simp
  moreover have "grid_at (map (map (\<lambda>c. to_csv (fst c))) cells) i j
      = Some (to_csv (fst (cells ! i ! j)))"
    using len row assms(2,3) by (simp add: grid_at_map)
  moreover have "grid_at (map (map (\<lambda>c. to_csv (snd (snd c)))) cells) i j
      = Some (to_csv (snd (snd (cells ! i ! j))))"
    using len row assms(2,3) by (simp add: grid_at_map)
  moreover have "grid_at (map (map (\<lambda>c. to_csv (fst (snd c)))) cells) i j
      = Some (to_csv (fst (snd (cells ! i ! j))))"
    using len row assms(2,3) by (simp add: grid_at_map)
  ultimately show ?thesis using w by blast
qed

lemma temp_level_shape:
  assumes "temp_level FL U V T R C fl = Inr w"
  shows "\<exists>gt gd gs. w = [((fl, ''Temp''), gt), ((fl, ''Dir''), gd), ((fl, ''Spd''), gs)]
           \<and> length gt = R \<and> length gd = R \<and> length gs = R
           \<and> list_all (\<lambda>row. length row = C) gt \<and> list_all (\<lambda>row. length row = C) gd
           \<and> list_all (\<lambda>row. length row = C) gs"
proof -
  from assms obtain cells where
    cells: "mapE (\<lambda>i. mapE (\<lambda>j. temp_point FL U V T fl i j) [0..<C]) [0..<R] = Inr cells"
    and w: "w = [((fl, ''Temp''), map (map (\<lambda>c. to_csv (fst c))) cells),
                 ((fl, ''Dir''), map (map (\<lambda>c. to_csv (snd (snd c)))) cells),
                 ((fl, ''Spd''), map (map (\<lambda>c. to_csv (fst (snd c)))) cells)]"
    by (auto simp: temp_level_def bindE_eq_Inr)
  from cells have len: "length cells = R"
    and rows: "\<forall>i<R. mapE (\<lambda>j. temp_point FL U V T fl i j) [0..<C] = Inr (cells ! i)"
    by (simp_all add: mapE_upt)
  have "\<forall>i<length cells. length (cells ! i) = C"
    using rows len by (simp add: mapE_upt)
  then have "list_all (\<lambda>row. length row = C) cells"
    by (simp add: list_all_length)
  then show ?thesis using w len by (simp add: list_all_iff)
qed

lemma isl_bindE_Inr: "isl (bindE m (\<lambda>x. Inr (g x))) \<longleftrightarrow> isl m"
  by (cases m) simp_all

lemma isl_mapE_grid:
  "isl (mapE (\<lambda>i. mapE (\<lambda>j. f i j) [0..<C]) [0..<R]) \<longleftrightarrow> (\<exists>i<R. \<exists>j<C. isl (f i j))"
  by (simp add: isl_mapE Bex_def)

lemma isl_temp_level:
  "isl (temp_level FL U V T R C fl) \<longleftrightarrow> (\<exists>i<R. \<exists>j<C. isl (temp_point FL U V T fl i j))"
  unfolding temp_level_def isl_bindE_Inr by (rule isl_mapE_grid)

lemma isl_uv_level:
  "isl (uv_level ic FL U V R C fl) \<longleftrightarrow> (\<exists>i<R. \<exists>j<C. isl (uv_point FL U V fl i j))"
  unfolding uv_level_def isl_bindE_Inr by (rule isl_mapE_grid)

lemma temp_point_isl:
  assumes "stackable h" "stackable u" "stackable v" "stackable t" "in_grid h i j"
  shows "isl (temp_point (fl_3d_of h) (map vals u) (map vals v) (t_3d_of t) fl i j)
     \<longleftrightarrow> \<not> (in_grid u i j \<and> in_grid v i j \<and> in_grid t i j
          \<and> (has_nan h i j \<or> has_nan u i j \<or> has_nan v i j
               \<or> has_nan t i j
               \<or> (length u = length h \<and> length v = length h \<and> length t = length h)))"
proof -
  have ne: "rev (fl_profile h i j) \<noteq> []"
    using fl_profile_nonempty [OF assms(1)] by simp
  show ?thesis
    unfolding temp_point_eq [OF assms]
    using ne by (auto simp: isl_interp_bind isl_np_interp np_interp_isr)
qed

lemma fl_target_Cons: "fl_target = 0 # map (\<lambda>k. 10 * int k) [1..<51]"
  by (simp add: fl_target_def upt_conv_Cons)

lemma isl_temp_level_stackable:
  assumes "stackable h" "stackable u" "stackable v" "stackable t"
  shows "isl (temp_level (fl_3d_of h) (map vals u) (map vals v) (t_3d_of t)
             (grid_rows h) (grid_cols h) fl) \<longleftrightarrow>
     (\<exists>i j. in_grid h i j \<and>
        \<not> (in_grid u i j \<and> in_grid v i j \<and> in_grid t i j
          \<and> (has_nan h i j \<or> has_nan u i j \<or> has_nan v i j \<or> has_nan t i j
               \<or> (length u = length h \<and> length v = length h \<and> length t = length h))))"
  (is "?L \<longleftrightarrow> ?R")
proof
  assume ?L
  then obtain i j where ij: "i < grid_rows h" "j < grid_cols h"
    and bad: "isl (temp_point (fl_3d_of h) (map vals u) (map vals v) (t_3d_of t) fl i j)"
    unfolding isl_temp_level by blast
  from ij have pt: "in_grid h i j" by (simp add: in_grid_def)
  from bad show ?R unfolding temp_point_isl [OF assms pt] using pt by blast
next
  assume ?R
  then obtain i j where pt: "in_grid h i j"
    and bad: "\<not> (in_grid u i j \<and> in_grid v i j \<and> in_grid t i j
          \<and> (has_nan h i j \<or> has_nan u i j \<or> has_nan v i j \<or> has_nan t i j
               \<or> (length u = length h \<and> length v = length h \<and> length t = length h)))"
    by blast
  from bad have "isl (temp_point (fl_3d_of h) (map vals u) (map vals v) (t_3d_of t) fl i j)"
    unfolding temp_point_isl [OF assms pt] .
  moreover from pt have "i < grid_rows h" "j < grid_cols h" by (simp_all add: in_grid_def)
  ultimately show ?L unfolding isl_temp_level by blast
qed

lemma isl_uv_level_stackable:
  assumes "stackable h" "stackable u" "stackable v"
  shows "isl (uv_level ic (fl_3d_of h) (map vals u) (map vals v) (grid_rows h) (grid_cols h) fl)
     \<longleftrightarrow> (\<exists>i j. in_grid h i j \<and>
        \<not> (in_grid u i j \<and> in_grid v i j
          \<and> (has_nan h i j \<or> has_nan u i j \<or> has_nan v i j
               \<or> (length u = length h \<and> length v = length h))))"
  (is "?L \<longleftrightarrow> ?R")
proof
  assume ?L
  then obtain i j where ij: "i < grid_rows h" "j < grid_cols h"
    and bad: "isl (uv_point (fl_3d_of h) (map vals u) (map vals v) fl i j)"
    unfolding isl_uv_level by blast
  from ij have pt: "in_grid h i j" by (simp add: in_grid_def)
  from bad show ?R unfolding uv_point_isl [OF assms pt] using pt by blast
next
  assume ?R
  then obtain i j where pt: "in_grid h i j"
    and bad: "\<not> (in_grid u i j \<and> in_grid v i j
          \<and> (has_nan h i j \<or> has_nan u i j \<or> has_nan v i j
               \<or> (length u = length h \<and> length v = length h)))"
    by blast
  from bad have "isl (uv_point (fl_3d_of h) (map vals u) (map vals v) fl i j)"
    unfolding uv_point_isl [OF assms pt] .
  moreover from pt have "i < grid_rows h" "j < grid_cols h" by (simp_all add: in_grid_def)
  ultimately show ?L unfolding isl_uv_level by blast
qed

lemma temp_runs_iff:
  "(\<exists>files. interpolate_uv_temp_at_flight_levels h u v t = (files, None)) \<longleftrightarrow>
     (stackable h \<and> stackable u \<and> stackable v \<and> stackable t) \<and>
     (\<forall>i j. in_grid h i j \<longrightarrow>
        in_grid u i j \<and> in_grid v i j \<and> in_grid t i j
        \<and> (has_nan h i j \<or> has_nan u i j \<or> has_nan v i j \<or> has_nan t i j
             \<or> (length u = length h \<and> length v = length h \<and> length t = length h)))"
  (is "?L \<longleftrightarrow> ?S \<and> ?P")
proof (cases ?S)
  case False
  then show ?thesis by (auto simp: interpolate_uv_temp_not_stackable)
next
  case True
  then have st: "stackable h" "stackable u" "stackable v" "stackable t" by simp_all
  let ?body = "temp_level (fl_3d_of h) (map vals u) (map vals v) (t_3d_of t)
      (grid_rows h) (grid_cols h)"
  have bad: "isl (?body fl) \<longleftrightarrow> \<not> ?P" for fl
    unfolding isl_temp_level_stackable [OF st] by blast
  show ?thesis
  proof
    assume ?L
    then obtain files where "write_levels ?body fl_target [] = (files, None)"
      by (auto simp: interpolate_uv_temp_stackable [OF st])
    from write_levels_None [OF this] fl_target_nonempty have "\<not> isl (?body 0)" by blast
    with bad True show "?S \<and> ?P" by blast
  next
    assume "?S \<and> ?P"
    with bad have "\<forall>fl\<in>set fl_target. \<not> isl (?body fl)" by blast
    from write_levels_total [OF this, of "[]"] show ?L
      by (simp add: interpolate_uv_temp_stackable [OF st])
  qed
qed

lemma temp_fails_clean:
  assumes "interpolate_uv_temp_at_flight_levels h u v t = (files, Some e)"
  shows "files = []"
proof (cases "stackable h \<and> stackable u \<and> stackable v \<and> stackable t")
  case False
  with assms show ?thesis by (simp add: interpolate_uv_temp_not_stackable)
next
  case True
  then have st: "stackable h" "stackable u" "stackable v" "stackable t" by simp_all
  let ?body = "temp_level (fl_3d_of h) (map vals u) (map vals v) (t_3d_of t)
      (grid_rows h) (grid_cols h)"
  have same: "isl (?body fl) \<longleftrightarrow> isl (?body 0)" for fl
    unfolding isl_temp_level_stackable [OF st] ..
  from assms have run: "write_levels ?body fl_target [] = (files, Some e)"
    by (simp add: interpolate_uv_temp_stackable [OF st])
  show ?thesis
  proof (cases "?body 0")
    case (Inl e')
    with run show ?thesis by (simp add: fl_target_Cons)
  next
    case (Inr w)
    then have "\<forall>fl\<in>set fl_target. \<not> isl (?body fl)" using same by simp
    from write_levels_total [OF this, of "[]"] run show ?thesis by simp
  qed
qed

lemma temp_output:
  assumes run: "interpolate_uv_temp_at_flight_levels h u v t = (files, None)"
    and fl: "fl \<in> set fl_target" and pt: "in_grid h i j"
  shows "stackable h \<and> stackable u \<and> stackable v \<and> stackable t \<and>
     (\<exists>p. temp_point (fl_3d_of h) (map vals u) (map vals v) (t_3d_of t) fl i j = Inr p
        \<and> csv_at files fl ''Temp'' i j = Some (to_csv (fst p))
        \<and> csv_at files fl ''Dir'' i j = Some (to_csv (snd (snd p)))
        \<and> csv_at files fl ''Spd'' i j = Some (to_csv (fst (snd p))))"
proof -
  have st: "stackable h \<and> stackable u \<and> stackable v \<and> stackable t"
    using run interpolate_uv_temp_not_stackable [of h u v t] by auto
  let ?body = "temp_level (fl_3d_of h) (map vals u) (map vals v) (t_3d_of t)
      (grid_rows h) (grid_cols h)"
  let ?G = "\<lambda>fl. projr (?body fl)"
  from st run have "write_levels ?body fl_target [] = (files, None)"
    by (simp add: interpolate_uv_temp_stackable)
  from write_levels_None [OF this] have files: "files = concat (map ?G fl_target)"
    and ok: "\<forall>fl\<in>set fl_target. \<not> isl (?body fl)" by simp_all
  have keys: "\<forall>k\<in>set fl_target. \<forall>key\<in>fst ` set (?G k). fst key = k"
  proof
    fix k assume "k \<in> set fl_target"
    with ok obtain w where w: "?body k = Inr w" by (auto simp: isr_iff [symmetric])
    from temp_level_shape [OF w] w show "\<forall>key\<in>fst ` set (?G k). fst key = k" by auto
  qed
  have look: "map_of files (fl, n) = map_of (?G fl) (fl, n)" for n
    unfolding files using map_of_concat_levels [of fl_target ?G fl n, OF keys] fl by simp
  from ok fl obtain w where w: "?body fl = Inr w" by (auto simp: isr_iff [symmetric])
  from pt have "i < grid_rows h" "j < grid_cols h" by (simp_all add: in_grid_def)
  from temp_level_cell [OF w this] obtain p gt gd gs where
    p: "temp_point (fl_3d_of h) (map vals u) (map vals v) (t_3d_of t) fl i j = Inr p"
    and ww: "w = [((fl, ''Temp''), gt), ((fl, ''Dir''), gd), ((fl, ''Spd''), gs)]"
    and gt: "grid_at gt i j = Some (to_csv (fst p))"
    and gd: "grid_at gd i j = Some (to_csv (snd (snd p)))"
    and gs: "grid_at gs i j = Some (to_csv (fst (snd p)))"
    by blast
  have "csv_at files fl ''Temp'' i j = Some (to_csv (fst p))"
    using look w ww gt by (simp add: csv_at_def)
  moreover have "csv_at files fl ''Dir'' i j = Some (to_csv (snd (snd p)))"
    using look w ww gd by (simp add: csv_at_def)
  moreover have "csv_at files fl ''Spd'' i j = Some (to_csv (fst (snd p)))"
    using look w ww gs by (simp add: csv_at_def)
  ultimately show ?thesis using st p by blast
qed

lemma py_round_of_int [simp]: "py_round (of_int n) = n"
  by (simp add: py_round_def)

lemma to_csv_NaN [simp]: "to_csv NaN = Blank"
  by (simp add: to_csv_def isnan_def)

lemma to_csv_Fin [simp]: "to_csv (Fin (of_int n)) = Num n"
  by (simp add: to_csv_def isnan_def)

lemma astype_int_NaN [simp]: "astype_int ic NaN = ic NaN"
  by (simp add: astype_int_def)

lemma bindE_Inr_iff: "bindE m f = Inr y \<longleftrightarrow> (\<exists>x. m = Inr x \<and> f x = Inr y)"
  by (cases m) simp_all

lemma temp_nan_output:
  assumes run: "interpolate_uv_temp_at_flight_levels h u v t = (files, None)"
    and fl: "fl \<in> set fl_target" and pt: "in_grid h i j"
    and nan: "has_nan h i j \<or> has_nan u i j \<or> has_nan v i j \<or> has_nan t i j"
  shows "csv_at files fl ''Temp'' i j = Some Blank \<and> csv_at files fl ''Spd'' i j = Some Blank
     \<and> csv_at files fl ''Dir'' i j = Some Blank"
proof -
  from temp_output [OF run fl pt] obtain p where
    st: "stackable h" "stackable u" "stackable v" "stackable t"
    and p: "temp_point (fl_3d_of h) (map vals u) (map vals v) (t_3d_of t) fl i j = Inr p"
    and cells: "csv_at files fl ''Temp'' i j = Some (to_csv (fst p))"
      "csv_at files fl ''Dir'' i j = Some (to_csv (snd (snd p)))"
      "csv_at files fl ''Spd'' i j = Some (to_csv (fst (snd p)))"
    by blast
  from p nan have "p = (NaN, NaN, NaN)"
    unfolding temp_point_eq [OF st pt] by (auto split: if_splits)
  with cells show ?thesis by simp
qed


lemma uv_nan_output:
  assumes run: "interpolate_uv_at_flight_levels ic h u v = Inr out"
    and fl: "fl \<in> set fl_target" and pt: "in_grid h i j"
    and nan: "has_nan h i j \<or> has_nan u i j \<or> has_nan v i j"
  shows "uv_at out fl ''u'' i j = Some (ic NaN) \<and> uv_at out fl ''v'' i j = Some (ic NaN)"
proof -
  from uv_output [OF run fl pt] obtain p where
    st: "stackable h" "stackable u" "stackable v"
    and p: "uv_point (fl_3d_of h) (map vals u) (map vals v) fl i j = Inr p"
    and cells: "uv_at out fl ''u'' i j = Some (astype_int ic (fst p))"
      "uv_at out fl ''v'' i j = Some (astype_int ic (snd p))"
    by blast
  from p nan have "p = (NaN, NaN)"
    unfolding uv_point_eq [OF st pt] by (auto split: if_splits)
  with cells show ?thesis by simp
qed

lemma uv_complete_output:
  assumes run: "interpolate_uv_at_flight_levels ic h u v = Inr out"
    and fl: "fl \<in> set fl_target" and pt: "in_grid h i j"
    and full: "\<not> has_nan h i j" "\<not> has_nan u i j" "\<not> has_nan v i j"
  shows "\<exists>u_val v_val.
       np_interp (of_int fl) (rev (fl_profile h i j)) (rev (reals u i j)) = Inr u_val
     \<and> np_interp (of_int fl) (rev (fl_profile h i j)) (rev (reals v i j)) = Inr v_val
     \<and> uv_at out fl ''u'' i j = Some (astype_int ic (Fin u_val))
     \<and> uv_at out fl ''v'' i j = Some (astype_int ic (Fin v_val))"
proof -
  from uv_output [OF run fl pt] obtain p where
    st: "stackable h" "stackable u" "stackable v"
    and p: "uv_point (fl_3d_of h) (map vals u) (map vals v) fl i j = Inr p"
    and cells: "uv_at out fl ''u'' i j = Some (astype_int ic (fst p))"
      "uv_at out fl ''v'' i j = Some (astype_int ic (snd p))"
    by blast
  from p full obtain u_val v_val where
    "np_interp (of_int fl) (rev (fl_profile h i j)) (rev (reals u i j)) = Inr u_val"
    "np_interp (of_int fl) (rev (fl_profile h i j)) (rev (reals v i j)) = Inr v_val"
    "p = (Fin u_val, Fin v_val)"
    unfolding uv_point_eq [OF st pt]
    by (auto split: if_splits simp: bindE_Inr_iff)
  with cells show ?thesis by simp
qed

subsection \<open>Evaluating the routines on small inputs\<close>

lemma grid_rows_msg: "grid_rows (msg l rows # rest) = length rows"
  by (simp add: grid_rows_def msg_def from_rows_def)

lemma grid_cols_msg: "grid_cols (msg l rows # rest) = length (hd rows)"
  by (simp add: grid_cols_def msg_def from_rows_def)

lemma profile_Nil: "profile [] i j = []"
  by (simp add: profile_def)

lemma profile_msg: "profile (msg l rows # rest) i j = rows ! i ! j # profile rest i j"
  by (simp add: profile_def msg_def from_rows_def)

lemma stackable_one: "stackable [msg l rows]"
  by (simp add: stackable_def)

lemma stackable_more:
  "stackable (msg l rows # msg l' rows' # rest) \<longleftrightarrow>
     length rows' = length rows \<and> length (hd rows') = length (hd rows)
     \<and> stackable (msg l rows # rest)"
  by (auto simp: stackable_def same_shape_def msg_def from_rows_def)

lemma has_nan_Cons:
  "has_nan (msg l rows # rest) i j \<longleftrightarrow> isnan (rows ! i ! j) \<or> has_nan rest i j"
  by (simp add: has_nan_def any_isnan_def profile_msg)

lemma has_nan_Nil: "\<not> has_nan [] i j"
  by (simp add: has_nan_def any_isnan_def profile_Nil)

lemma isnan_simps: "isnan NaN" "\<not> isnan (Fin x)"
  by (simp_all add: isnan_def)

lemmas fixture =
  in_grid_def grid_rows_msg grid_cols_msg profile_Nil profile_msg stackable_one stackable_more
  has_nan_Cons has_nan_Nil isnan_simps

subsection \<open>The interpolation routine\<close>



lemma py_round_numeral [simp]: "py_round (numeral n) = numeral n"
  using py_round_of_int [of "numeral n"] by simp








lemma fl_target_mem: "fl \<in> set fl_target \<longleftrightarrow> 0 \<le> fl \<and> fl \<le> 500 \<and> fl mod 10 = 0"
proof
  assume "fl \<in> set fl_target"
  then obtain k where "k < 51" "fl = 10 * int k" by (auto simp: fl_target_def)
  then show "0 \<le> fl \<and> fl \<le> 500 \<and> fl mod 10 = 0" by simp
next
  assume a: "0 \<le> fl \<and> fl \<le> 500 \<and> fl mod 10 = 0"
  then have "nat (fl div 10) < 51" "fl = 10 * int (nat (fl div 10))" by auto
  then have "fl \<in> (\<lambda>k. 10 * int k) ` {0..<51}" by (intro image_eqI) simp_all
  then show "fl \<in> set fl_target" by (simp add: fl_target_def)
qed




lemma astype_int_small:
  "- (2 ^ 63) \<le> trunc r \<Longrightarrow> trunc r < 2 ^ 63 \<Longrightarrow> astype_int ic (Fin r) = trunc r"
  by (simp add: astype_int_def)

lemma trunc_of_int [simp]: "trunc (of_int n) = n"
  by (simp add: trunc_def)

lemma astype_int_of_int:
  "- (2 ^ 63) \<le> n \<Longrightarrow> n < 2 ^ 63 \<Longrightarrow> astype_int ic (Fin (of_int n)) = n"
  by (simp add: astype_int_def)

lemma py_round_neg_numeral [simp]: "py_round (- numeral n) = - numeral n"
  using py_round_of_int [of "- numeral n"] by simp

lemmas two_level = two_level_hgt_def two_level_u_def two_level_v_def two_level_t_def

lemmas scenario = scenario_hgt_def scenario_u_def scenario_v_def scenario_t_def



lemma two_level_facts:
  "in_grid two_level_hgt 0 0"
  "\<not> has_nan two_level_hgt 0 0" "\<not> has_nan two_level_u 0 0" "\<not> has_nan two_level_v 0 0"
  "\<not> has_nan two_level_t 0 0"
  "fl_profile two_level_hgt 0 0 = [to_fl 3000, to_fl 1000]"
  "reals two_level_u 0 0 = [30, 10]" "reals two_level_v 0 0 = [0, 0]"
  "reals two_level_t 0 0 = [263.15, 283.15]"
  by (simp_all add: two_level fixture fl_profile_def reals_def)


lemma scenario_uv_runs:
  "\<exists>out. interpolate_uv_at_flight_levels ic scenario_hgt scenario_u scenario_v = Inr out"
  unfolding uv_runs_iff by (simp add: scenario fixture)

lemma scenario_temp_runs:
  "\<exists>files. interpolate_uv_temp_at_flight_levels scenario_hgt scenario_u scenario_v scenario_t
     = (files, None)"
  unfolding temp_runs_iff by (simp add: scenario fixture)






subsection \<open>Rounding and truncation\<close>













lemma single_facts:
  "in_grid [msg l [[x]]] 0 0"
  "has_nan [msg l [[x]]] 0 0 \<longleftrightarrow> isnan x"
  "fl_profile [msg l [[Fin a]]] 0 0 = [to_fl a]"
  "reals [msg l [[Fin a]]] 0 0 = [a]"
  by (simp_all add: fixture fl_profile_def reals_def)



lemma interp_single: "np_interp x [a] [b] = Inr b"
  by (simp add: np_interp_def segment_def)

subsection \<open>The shape of the results\<close>

lemma uv_result_fields:
  assumes run: "interpolate_uv_at_flight_levels ic h u v = Inr out"
  shows "map fst out = fl_target"
    and "fl \<in> set fl_target \<Longrightarrow>
       \<exists>gu gv. map_of out fl = Some [(''u'', gu), (''v'', gv)]
         \<and> has_shape gu (grid_rows h) (grid_cols h) \<and> has_shape gv (grid_rows h) (grid_cols h)"
proof -
  have st: "stackable h \<and> stackable u \<and> stackable v"
    using run interpolate_uv_not_stackable [of h u v ic] by auto
  then have m: "mapE (\<lambda>fl. bindE (uv_level ic (fl_3d_of h) (map vals u)
                (map vals v) (grid_rows h) (grid_cols h) fl) (\<lambda>d. Inr (fl, d))) fl_target = Inr out"
    using run by (simp add: interpolate_uv_stackable)
  from mapE_keyed [OF m] show "map fst out = fl_target" by simp
  assume "fl \<in> set fl_target"
  with mapE_keyed [OF m] obtain d where
    d: "uv_level ic (fl_3d_of h) (map vals u) (map vals v) (grid_rows h) (grid_cols h) fl = Inr d"
    and look: "map_of out fl = Some d" by blast
  from uv_level_shape [OF d] look
  show "\<exists>gu gv. map_of out fl = Some [(''u'', gu), (''v'', gv)]
         \<and> has_shape gu (grid_rows h) (grid_cols h) \<and> has_shape gv (grid_rows h) (grid_cols h)"
    by (auto simp: has_shape_def)
qed

lemma temp_result_files:
  assumes run: "interpolate_uv_temp_at_flight_levels h u v t = (files, None)"
  shows "map fst files = concat (map (\<lambda>fl. [(fl, ''Temp''), (fl, ''Dir''), (fl, ''Spd'')]) fl_target)"
    and "fl \<in> set fl_target \<Longrightarrow>
       \<exists>gt gd gs. (\<forall>n. map_of files (fl, n)
                        = map_of [((fl, ''Temp''), gt), ((fl, ''Dir''), gd), ((fl, ''Spd''), gs)] (fl, n))
         \<and> has_shape gt (grid_rows h) (grid_cols h) \<and> has_shape gd (grid_rows h) (grid_cols h)
         \<and> has_shape gs (grid_rows h) (grid_cols h)"
proof -
  have st: "stackable h \<and> stackable u \<and> stackable v \<and> stackable t"
    using run interpolate_uv_temp_not_stackable [of h u v t] by auto
  let ?body = "temp_level (fl_3d_of h) (map vals u) (map vals v) (t_3d_of t)
      (grid_rows h) (grid_cols h)"
  let ?G = "\<lambda>fl. projr (?body fl)"
  from st run have "write_levels ?body fl_target [] = (files, None)"
    by (simp add: interpolate_uv_temp_stackable)
  from write_levels_None [OF this] have files: "files = concat (map ?G fl_target)"
    and ok: "\<forall>fl\<in>set fl_target. \<not> isl (?body fl)" by simp_all
  have shape: "\<exists>gt gd gs. ?G k = [((k, ''Temp''), gt), ((k, ''Dir''), gd), ((k, ''Spd''), gs)]
         \<and> has_shape gt (grid_rows h) (grid_cols h) \<and> has_shape gd (grid_rows h) (grid_cols h)
         \<and> has_shape gs (grid_rows h) (grid_cols h)" if "k \<in> set fl_target" for k
  proof -
    from that ok obtain w where w: "?body k = Inr w" by (auto simp: isr_iff [symmetric])
    from temp_level_shape [OF w] w show ?thesis by (auto simp: has_shape_def)
  qed
  have eq: "map (\<lambda>fl. map fst (?G fl)) fl_target
      = map (\<lambda>fl. [(fl, ''Temp''), (fl, ''Dir''), (fl, ''Spd'')]) fl_target"
  proof (rule map_cong [OF refl])
    fix k assume "k \<in> set fl_target"
    from shape [OF this] show "map fst (?G k) = [(k, ''Temp''), (k, ''Dir''), (k, ''Spd'')]"
      by auto
  qed
  have "map fst files = concat (map (\<lambda>fl. map fst (?G fl)) fl_target)"
    unfolding files by (simp add: map_concat comp_def)
  also have "\<dots> = concat (map (\<lambda>fl. [(fl, ''Temp''), (fl, ''Dir''), (fl, ''Spd'')]) fl_target)"
    by (simp only: eq)
  finally show "map fst files
      = concat (map (\<lambda>fl. [(fl, ''Temp''), (fl, ''Dir''), (fl, ''Spd'')]) fl_target)" .
  assume fl: "fl \<in> set fl_target"
  have keys: "\<forall>k\<in>set fl_target. \<forall>key\<in>fst ` set (?G k). fst key = k"
  proof
    fix k assume "k \<in> set fl_target"
    from shape [OF this] show "\<forall>key\<in>fst ` set (?G k). fst key = k" by auto
  qed
  have look: "map_of files (fl, n) = map_of (?G fl) (fl, n)" for n
    unfolding files using map_of_concat_levels [of fl_target ?G fl n, OF keys] fl by simp
  from shape [OF fl] look
  show "\<exists>gt gd gs. (\<forall>n. map_of files (fl, n)
                        = map_of [((fl, ''Temp''), gt), ((fl, ''Dir''), gd), ((fl, ''Spd''), gs)] (fl, n))
         \<and> has_shape gt (grid_rows h) (grid_cols h) \<and> has_shape gd (grid_rows h) (grid_cols h)
         \<and> has_shape gs (grid_rows h) (grid_cols h)"
    by metis
qed

subsection \<open>The pressure levels are not read\<close>

lemma same_vals_empty: "map vals g' = map vals g \<Longrightarrow> g' = [] \<longleftrightarrow> g = []"
  by (metis map_is_Nil_conv)

lemma same_vals_hd: "map vals g' = map vals g \<Longrightarrow> g \<noteq> [] \<Longrightarrow> vals (hd g') = vals (hd g)"
  by (metis hd_map map_is_Nil_conv)

lemma uv_levels_irrelevant:
  assumes "map vals h' = map vals h" "map vals u' = map vals u" "map vals v' = map vals v"
  shows "interpolate_uv_at_flight_levels ic h' u' v' = interpolate_uv_at_flight_levels ic h u v"
proof -
  note e = same_vals_empty [OF assms(1)] same_vals_empty [OF assms(2)]
    same_vals_empty [OF assms(3)]
  show ?thesis
  proof (cases "h = [] \<or> u = [] \<or> v = []")
    case True
    with e show ?thesis
      by (auto simp: interpolate_uv_at_flight_levels_def select_np_array)
  next
    case False
    with e have ne: "h' \<noteq> []" "u' \<noteq> []" "v' \<noteq> []" "h \<noteq> []" "u \<noteq> []" "v \<noteq> []"
      by simp_all
    from same_vals_hd [OF assms(1) ne(4)] have "vals (hd h') = vals (hd h)" .
    with ne assms show ?thesis
      by (simp add: interpolate_uv_at_flight_levels_def select_np_array del: map_map)
  qed
qed

lemma temp_levels_irrelevant:
  assumes "map vals h' = map vals h" "map vals u' = map vals u" "map vals v' = map vals v"
    "map vals t' = map vals t"
  shows "interpolate_uv_temp_at_flight_levels h' u' v' t'
       = interpolate_uv_temp_at_flight_levels h u v t"
proof -
  note e = same_vals_empty [OF assms(1)] same_vals_empty [OF assms(2)]
    same_vals_empty [OF assms(3)] same_vals_empty [OF assms(4)]
  show ?thesis
  proof (cases "h = [] \<or> u = [] \<or> v = [] \<or> t = []")
    case True
    with e show ?thesis
      by (auto simp: interpolate_uv_temp_at_flight_levels_def select_np_array)
  next
    case False
    with e have ne: "h' \<noteq> []" "u' \<noteq> []" "v' \<noteq> []" "t' \<noteq> []"
      "h \<noteq> []" "u \<noteq> []" "v \<noteq> []" "t \<noteq> []"
      by simp_all
    from same_vals_hd [OF assms(1) ne(5)] have "vals (hd h') = vals (hd h)" .
    with ne assms show ?thesis
      by (simp add: interpolate_uv_temp_at_flight_levels_def select_np_array del: map_map)
  qed
qed

lemma two_level_lengths:
  "length two_level_hgt = 2" "length two_level_u = 2" "length two_level_v = 2"
  "length two_level_t = 2"
  by (simp_all add: two_level)

lemma level_msg: "level (msg l rows) = l"
  by (simp add: msg_def)

section \<open>The claims\<close>

text \<open>
  Claim C1. A grid point whose profile holds a NaN at some level is left out of the
  interpolation, and every output at that point is the missing-value marker, the other
  points being unaffected. The U/V routine stores NaN for such a point and then casts
  its arrays to integers, so the dictionary it returns holds whatever integer the cast
  \<open>ic\<close> makes of NaN (the least 64-bit integer on x86-64). Here the height of the only
  grid point is NaN.
\<close>

theorem uv_nan_point_returns_integer:
  "\<not> isl (interpolate_uv_at_flight_levels ic [msg 1000 [[NaN]]] [msg 1000 [[Fin 5]]]
            [msg 1000 [[Fin 3]]])
   \<and> uv_at (projr (interpolate_uv_at_flight_levels ic [msg 1000 [[NaN]]]
            [msg 1000 [[Fin 5]]] [msg 1000 [[Fin 3]]])) 0 ''u'' 0 0 = Some (ic NaN)
   \<and> uv_at (projr (interpolate_uv_at_flight_levels ic [msg 1000 [[NaN]]]
            [msg 1000 [[Fin 5]]] [msg 1000 [[Fin 3]]])) 0 ''v'' 0 0 = Some (ic NaN)
   \<and> cast_x86 NaN = - 9223372036854775808"
proof -
  let ?h = "[msg 1000 [[NaN]]]" and ?u = "[msg 1000 [[Fin 5]]]" and ?v = "[msg 1000 [[Fin 3]]]"
  have "\<exists>out. interpolate_uv_at_flight_levels ic ?h ?u ?v = Inr out"
    unfolding uv_runs_iff by (simp add: fixture)
  then obtain out where run: "interpolate_uv_at_flight_levels ic ?h ?u ?v = Inr out" ..
  have pt: "in_grid ?h 0 0" by (simp add: fixture)
  have nan: "has_nan ?h 0 0 \<or> has_nan ?u 0 0 \<or> has_nan ?v 0 0" by (simp add: fixture)
  from uv_nan_output [OF run fl_target_nonempty pt nan] run
  show ?thesis by (simp add: cast_x86_def)
qed

text \<open>
  Claim C2. If the height, U and V grids disagree on their 2D dimensions or on their set
  of pressure levels, the operation fails with a ShapeMismatch error before any
  interpolation begins and returns no partial result. The routines compare nothing
  before their loops and never read the pressure levels. What makes them fail is stated
  exactly below: a selection that is empty or holds messages of different shapes, a
  point of the height grid outside the U, V (or temperature) grid, or a point with a
  NaN-free profile when the fields differ in their number of messages. A routine that
  fails returns no dictionary and has written no file.
\<close>

theorem failure_conditions:
  "((\<exists>out. interpolate_uv_at_flight_levels ic h u v = Inr out) \<longleftrightarrow>
      (stackable h \<and> stackable u \<and> stackable v) \<and>
      (\<forall>i j. in_grid h i j \<longrightarrow>
         in_grid u i j \<and> in_grid v i j
         \<and> (has_nan h i j \<or> has_nan u i j \<or> has_nan v i j
              \<or> (length u = length h \<and> length v = length h))))
   \<and> ((\<exists>files. interpolate_uv_temp_at_flight_levels h u v t = (files, None)) \<longleftrightarrow>
      (stackable h \<and> stackable u \<and> stackable v \<and> stackable t) \<and>
      (\<forall>i j. in_grid h i j \<longrightarrow>
         in_grid u i j \<and> in_grid v i j \<and> in_grid t i j
         \<and> (has_nan h i j \<or> has_nan u i j \<or> has_nan v i j \<or> has_nan t i j
              \<or> (length u = length h \<and> length v = length h \<and> length t = length h))))
   \<and> (\<forall>files e. interpolate_uv_temp_at_flight_levels h u v t = (files, Some e)
         \<longrightarrow> files = [])
   \<and> (map vals h' = map vals h \<and> map vals u' = map vals u \<and> map vals v' = map vals v
        \<and> map vals t' = map vals t \<longrightarrow>
         interpolate_uv_at_flight_levels ic h' u' v' = interpolate_uv_at_flight_levels ic h u v
       \<and> interpolate_uv_temp_at_flight_levels h' u' v' t'
           = interpolate_uv_temp_at_flight_levels h u v t)"
proof (intro conjI allI impI)
  show "(\<exists>out. interpolate_uv_at_flight_levels ic h u v = Inr out) \<longleftrightarrow>
      (stackable h \<and> stackable u \<and> stackable v) \<and>
      (\<forall>i j. in_grid h i j \<longrightarrow>
         in_grid u i j \<and> in_grid v i j
         \<and> (has_nan h i j \<or> has_nan u i j \<or> has_nan v i j
              \<or> (length u = length h \<and> length v = length h)))"
    unfolding uv_runs_iff by blast
next
  show "(\<exists>files. interpolate_uv_temp_at_flight_levels h u v t = (files, None)) \<longleftrightarrow>
      (stackable h \<and> stackable u \<and> stackable v \<and> stackable t) \<and>
      (\<forall>i j. in_grid h i j \<longrightarrow>
         in_grid u i j \<and> in_grid v i j \<and> in_grid t i j
         \<and> (has_nan h i j \<or> has_nan u i j \<or> has_nan v i j \<or> has_nan t i j
              \<or> (length u = length h \<and> length v = length h \<and> length t = length h)))"
    by (rule temp_runs_iff)
next
  fix files e
  assume "interpolate_uv_temp_at_flight_levels h u v t = (files, Some e)"
  then show "files = []" by (rule temp_fails_clean)
next
  assume a: "map vals h' = map vals h \<and> map vals u' = map vals u \<and> map vals v' = map vals v
        \<and> map vals t' = map vals t"
  then show "interpolate_uv_at_flight_levels ic h' u' v'
      = interpolate_uv_at_flight_levels ic h u v"
    by (intro uv_levels_irrelevant) simp_all
  from a show "interpolate_uv_temp_at_flight_levels h' u' v' t'
      = interpolate_uv_temp_at_flight_levels h u v t"
    by (intro temp_levels_irrelevant) simp_all
qed

theorem failure_conditions_witness:
  "isl (interpolate_uv_at_flight_levels cast_x86 two_level_hgt [msg 700 [[Fin 30]]] two_level_v)
   \<and> \<not> isl (interpolate_uv_at_flight_levels cast_x86 two_level_hgt two_level_u two_level_v)
   \<and> fst (interpolate_uv_temp_at_flight_levels two_level_hgt [msg 700 [[Fin 30]]] two_level_v
        two_level_t) = []
   \<and> snd (interpolate_uv_temp_at_flight_levels two_level_hgt [msg 700 [[Fin 30]]] two_level_v
        two_level_t) \<noteq> None
   \<and> interpolate_uv_at_flight_levels cast_x86 [msg 1 [[Fin 120]]] [msg 2 [[Fin 5]]]
        [msg 3 [[Fin 3]]]
     = interpolate_uv_at_flight_levels cast_x86 [msg 1000 [[Fin 120]]] [msg 1000 [[Fin 5]]]
        [msg 1000 [[Fin 3]]]"
proof -
  let ?u = "[msg 700 [[Fin 30]]]"
  note bad = failure_conditions [of cast_x86 two_level_hgt ?u two_level_v two_level_t
      two_level_hgt ?u two_level_v two_level_t]
  note good = failure_conditions [of cast_x86 two_level_hgt two_level_u two_level_v two_level_t
      two_level_hgt two_level_u two_level_v two_level_t]
  note lev = failure_conditions [of cast_x86 "[msg 1000 [[Fin 120]]]" "[msg 1000 [[Fin 5]]]"
      "[msg 1000 [[Fin 3]]]" "[msg 1000 [[Fin 283.15]]]" "[msg 1 [[Fin 120]]]"
      "[msg 2 [[Fin 5]]]" "[msg 3 [[Fin 3]]]" "[msg 4 [[Fin 283.15]]]"]
  note bad_uv = bad [THEN conjunct1]
  note bad_temp = bad [THEN conjunct2, THEN conjunct1]
  note bad_files = bad [THEN conjunct2, THEN conjunct2, THEN conjunct1]
  note good_uv = good [THEN conjunct1]
  note lev_same = lev [THEN conjunct2, THEN conjunct2, THEN conjunct2]
  have pt: "in_grid two_level_hgt 0 0" by (rule two_level_facts)
  have full: "\<not> has_nan two_level_hgt 0 0" "\<not> has_nan ?u 0 0" "\<not> has_nan two_level_v 0 0"
    "\<not> has_nan two_level_t 0 0"
    by (simp_all add: two_level_facts single_facts isnan_simps)
  have len: "length ?u \<noteq> length two_level_hgt" by (simp add: two_level_lengths)
  have a: "isl (interpolate_uv_at_flight_levels cast_x86 two_level_hgt ?u two_level_v)"
  proof (rule ccontr)
    assume "\<not> isl (interpolate_uv_at_flight_levels cast_x86 two_level_hgt ?u two_level_v)"
    then have "\<exists>out. interpolate_uv_at_flight_levels cast_x86 two_level_hgt ?u two_level_v
        = Inr out" by (simp add: isr_iff)
    with bad_uv have "\<forall>i j. in_grid two_level_hgt i j \<longrightarrow>
         in_grid ?u i j \<and> in_grid two_level_v i j
         \<and> (has_nan two_level_hgt i j \<or> has_nan ?u i j \<or> has_nan two_level_v i j
              \<or> (length ?u = length two_level_hgt
                   \<and> length two_level_v = length two_level_hgt))" by simp
    with pt full len show False by blast
  qed
  have ok: "(stackable two_level_hgt \<and> stackable two_level_u \<and> stackable two_level_v) \<and>
      (\<forall>i j. in_grid two_level_hgt i j \<longrightarrow>
         in_grid two_level_u i j \<and> in_grid two_level_v i j
         \<and> (has_nan two_level_hgt i j \<or> has_nan two_level_u i j \<or> has_nan two_level_v i j
              \<or> (length two_level_u = length two_level_hgt
                   \<and> length two_level_v = length two_level_hgt)))"
    by (simp add: two_level fixture)
  with good_uv
  have "\<exists>out. interpolate_uv_at_flight_levels cast_x86 two_level_hgt two_level_u two_level_v
      = Inr out" by simp
  then have b: "\<not> isl (interpolate_uv_at_flight_levels cast_x86 two_level_hgt two_level_u
      two_level_v)" by (simp add: isr_iff)
  have nf: "\<not> (\<exists>files. interpolate_uv_temp_at_flight_levels two_level_hgt ?u two_level_v
      two_level_t = (files, None))"
  proof
    assume "\<exists>files. interpolate_uv_temp_at_flight_levels two_level_hgt ?u two_level_v
      two_level_t = (files, None)"
    with bad_temp have "\<forall>i j. in_grid two_level_hgt i j \<longrightarrow>
         in_grid ?u i j \<and> in_grid two_level_v i j \<and> in_grid two_level_t i j
         \<and> (has_nan two_level_hgt i j \<or> has_nan ?u i j \<or> has_nan two_level_v i j
              \<or> has_nan two_level_t i j
              \<or> (length ?u = length two_level_hgt \<and> length two_level_v = length two_level_hgt
                   \<and> length two_level_t = length two_level_hgt))" by simp
    with pt full len show False by blast
  qed
  obtain files err where r: "interpolate_uv_temp_at_flight_levels two_level_hgt ?u two_level_v
      two_level_t = (files, err)" by (cases "interpolate_uv_temp_at_flight_levels two_level_hgt
      ?u two_level_v two_level_t")
  with nf obtain e where e: "err = Some e" by (cases err) auto
  from bad_files r e have "files = []" by simp
  with r e have c: "fst (interpolate_uv_temp_at_flight_levels two_level_hgt ?u two_level_v
      two_level_t) = []" "snd (interpolate_uv_temp_at_flight_levels two_level_hgt ?u two_level_v
      two_level_t) \<noteq> None" by simp_all
  have same: "map vals [msg 1 [[Fin 120]]] = map vals [msg 1000 [[Fin 120]]]
    \<and> map vals [msg 2 [[Fin 5]]] = map vals [msg 1000 [[Fin 5]]]
    \<and> map vals [msg 3 [[Fin 3]]] = map vals [msg 1000 [[Fin 3]]]
    \<and> map vals [msg 4 [[Fin 283.15]]] = map vals [msg 1000 [[Fin 283.15]]]"
    by (simp add: msg_def)
  from lev_same [rule_format, OF same] have d: "interpolate_uv_at_flight_levels cast_x86
      [msg 1 [[Fin 120]]] [msg 2 [[Fin 5]]] [msg 3 [[Fin 3]]]
     = interpolate_uv_at_flight_levels cast_x86 [msg 1000 [[Fin 120]]] [msg 1000 [[Fin 5]]]
        [msg 1000 [[Fin 3]]]" by (rule conjunct1)
  from a b c d show ?thesis by blast
qed

theorem failure_conditions_counterexample:
  "grid_rows [msg 1000 [[Fin 120]]] = 1
   \<and> grid_rows [msg 500 [[Fin 5, Fin 6], [Fin 7, Fin 8]]] = 2
   \<and> map level [msg 1000 [[Fin 120]]] = [1000]
   \<and> map level [msg 500 [[Fin 5, Fin 6], [Fin 7, Fin 8]]] = [500]
   \<and> \<not> isl (interpolate_uv_at_flight_levels cast_x86 [msg 1000 [[Fin 120]]]
        [msg 500 [[Fin 5, Fin 6], [Fin 7, Fin 8]]] [msg 1000 [[Fin 3]]])
   \<and> uv_at (projr (interpolate_uv_at_flight_levels cast_x86 [msg 1000 [[Fin 120]]]
        [msg 500 [[Fin 5, Fin 6], [Fin 7, Fin 8]]] [msg 1000 [[Fin 3]]])) 0 ''u'' 0 0 = Some 5
   \<and> snd (interpolate_uv_temp_at_flight_levels [msg 1000 [[Fin 120]]]
        [msg 500 [[Fin 5, Fin 6], [Fin 7, Fin 8]]] [msg 1000 [[Fin 3]]]
        [msg 1000 [[Fin 283.15]]]) = None"
proof -
  let ?h = "[msg 1000 [[Fin 120]]]" and ?u = "[msg 500 [[Fin 5, Fin 6], [Fin 7, Fin 8]]]"
  and ?v = "[msg 1000 [[Fin 3]]]" and ?t = "[msg 1000 [[Fin 283.15]]]"
  have "\<exists>out. interpolate_uv_at_flight_levels cast_x86 ?h ?u ?v = Inr out"
    unfolding uv_runs_iff by (simp add: fixture)
  then obtain out where uv: "interpolate_uv_at_flight_levels cast_x86 ?h ?u ?v = Inr out" ..
  have "\<exists>files. interpolate_uv_temp_at_flight_levels ?h ?u ?v ?t = (files, None)"
    unfolding temp_runs_iff by (simp add: fixture)
  then obtain files where tp: "interpolate_uv_temp_at_flight_levels ?h ?u ?v ?t = (files, None)" ..
  have full: "\<not> has_nan ?h 0 0" "\<not> has_nan ?u 0 0" "\<not> has_nan ?v 0 0"
    by (simp_all add: fixture)
  from uv_complete_output [OF uv fl_target_nonempty single_facts(1) full]
  obtain u_val where
    iu: "np_interp (of_int 0) (rev (fl_profile ?h 0 0)) (rev (reals ?u 0 0)) = Inr u_val"
    and cu: "uv_at out 0 ''u'' 0 0 = Some (astype_int cast_x86 (Fin u_val))"
    by blast
  from iu have "u_val = 5"
    by (simp add: single_facts interp_single reals_def fixture)
  with cu have c: "uv_at out 0 ''u'' 0 0 = Some 5"
    using astype_int_of_int [of 5 cast_x86] by simp
  have d: "grid_rows ?h = 1" "grid_rows ?u = 2" "map level ?h = [1000]" "map level ?u = [500]"
    by (simp_all add: grid_rows_msg level_msg)
  from uv have e: "\<not> isl (interpolate_uv_at_flight_levels cast_x86 ?h ?u ?v)" by simp
  from uv c have f: "uv_at (projr (interpolate_uv_at_flight_levels cast_x86 ?h ?u ?v))
      0 ''u'' 0 0 = Some 5" by simp
  from tp have g: "snd (interpolate_uv_temp_at_flight_levels ?h ?u ?v ?t) = None" by simp
  from d e f g show ?thesis by blast
qed
















text \<open>
  Claim C8. For each target flight level the result maps the names u, v, speed and dir
  (and temp when asked for) to a 2D array of the shape of the grid. Neither routine does:
  the U/V routine returns, per target flight level, a dictionary with the two names u
  and v; the temperature routine returns nothing and writes, per target flight level,
  the three files Temp, Dir and Spd. Each of these arrays has the shape of the grid.
\<close>

theorem result_fields:
  "(interpolate_uv_at_flight_levels ic h u v = Inr out \<longrightarrow>
      map fst out = fl_target
    \<and> (\<forall>fl\<in>set fl_target. \<exists>gu gv.
          map_of out fl = Some [(''u'', gu), (''v'', gv)]
        \<and> has_shape gu (grid_rows h) (grid_cols h) \<and> has_shape gv (grid_rows h) (grid_cols h)))
   \<and> (interpolate_uv_temp_at_flight_levels h u v t = (files, None) \<longrightarrow>
      map fst files = concat (map (\<lambda>fl. [(fl, ''Temp''), (fl, ''Dir''), (fl, ''Spd'')]) fl_target)
    \<and> (\<forall>fl\<in>set fl_target. \<exists>gt gd gs.
          map_of files (fl, ''Temp'') = Some gt \<and> map_of files (fl, ''Dir'') = Some gd
        \<and> map_of files (fl, ''Spd'') = Some gs
        \<and> has_shape gt (grid_rows h) (grid_cols h) \<and> has_shape gd (grid_rows h) (grid_cols h)
        \<and> has_shape gs (grid_rows h) (grid_cols h)))"
proof (intro conjI impI ballI)
  assume run: "interpolate_uv_at_flight_levels ic h u v = Inr out"
  from uv_result_fields(1) [OF run] show "map fst out = fl_target" .
  fix fl assume "fl \<in> set fl_target"
  from uv_result_fields(2) [OF run this]
  show "\<exists>gu gv. map_of out fl = Some [(''u'', gu), (''v'', gv)]
        \<and> has_shape gu (grid_rows h) (grid_cols h) \<and> has_shape gv (grid_rows h) (grid_cols h)" .
next
  assume run: "interpolate_uv_temp_at_flight_levels h u v t = (files, None)"
  from temp_result_files(1) [OF run] show "map fst files
      = concat (map (\<lambda>fl. [(fl, ''Temp''), (fl, ''Dir''), (fl, ''Spd'')]) fl_target)" .
  fix fl assume "fl \<in> set fl_target"
  from temp_result_files(2) [OF run this] obtain gt gd gs where
    look: "\<And>n. map_of files (fl, n)
        = map_of [((fl, ''Temp''), gt), ((fl, ''Dir''), gd), ((fl, ''Spd''), gs)] (fl, n)"
    and sh: "has_shape gt (grid_rows h) (grid_cols h)" "has_shape gd (grid_rows h) (grid_cols h)"
      "has_shape gs (grid_rows h) (grid_cols h)"
    by blast
  have "map_of files (fl, ''Temp'') = Some gt" "map_of files (fl, ''Dir'') = Some gd"
    "map_of files (fl, ''Spd'') = Some gs"
    by (simp_all add: look)
  with sh show "\<exists>gt gd gs.
          map_of files (fl, ''Temp'') = Some gt \<and> map_of files (fl, ''Dir'') = Some gd
        \<and> map_of files (fl, ''Spd'') = Some gs
        \<and> has_shape gt (grid_rows h) (grid_cols h) \<and> has_shape gd (grid_rows h) (grid_cols h)
        \<and> has_shape gs (grid_rows h) (grid_cols h)"
    by blast
qed

theorem result_fields_witness:
  "map fst (projr (interpolate_uv_at_flight_levels cast_x86 scenario_hgt scenario_u scenario_v))
     = fl_target
   \<and> (\<exists>gu gv. map_of (projr (interpolate_uv_at_flight_levels cast_x86 scenario_hgt scenario_u
          scenario_v)) 150 = Some [(''u'', gu), (''v'', gv)]
        \<and> has_shape gu 2 2 \<and> has_shape gv 2 2)
   \<and> (\<exists>gt gd gs.
          map_of (fst (interpolate_uv_temp_at_flight_levels scenario_hgt scenario_u scenario_v
            scenario_t)) (150, ''Temp'') = Some gt
        \<and> map_of (fst (interpolate_uv_temp_at_flight_levels scenario_hgt scenario_u scenario_v
            scenario_t)) (150, ''Dir'') = Some gd
        \<and> map_of (fst (interpolate_uv_temp_at_flight_levels scenario_hgt scenario_u scenario_v
            scenario_t)) (150, ''Spd'') = Some gs
        \<and> has_shape gt 2 2 \<and> has_shape gd 2 2 \<and> has_shape gs 2 2)"
proof -
  from scenario_uv_runs obtain out where
    uv: "interpolate_uv_at_flight_levels cast_x86 scenario_hgt scenario_u scenario_v = Inr out"
    by blast
  from scenario_temp_runs obtain files where
    tp: "interpolate_uv_temp_at_flight_levels scenario_hgt scenario_u scenario_v scenario_t
      = (files, None)" by blast
  have m: "(150::int) \<in> set fl_target" by (simp add: fl_target_mem)
  have sh: "grid_rows scenario_hgt = 2" "grid_cols scenario_hgt = 2"
    by (simp_all add: scenario fixture)
  note inst = result_fields [of cast_x86 scenario_hgt scenario_u scenario_v out scenario_t files]
  from inst uv have a: "map fst out = fl_target" by blast
  from inst uv m have b: "\<exists>gu gv. map_of out 150 = Some [(''u'', gu), (''v'', gv)]
        \<and> has_shape gu 2 2 \<and> has_shape gv 2 2"
    unfolding sh by blast
  from inst tp m have c: "\<exists>gt gd gs.
          map_of files (150, ''Temp'') = Some gt \<and> map_of files (150, ''Dir'') = Some gd
        \<and> map_of files (150, ''Spd'') = Some gs
        \<and> has_shape gt 2 2 \<and> has_shape gd 2 2 \<and> has_shape gs 2 2"
    unfolding sh by blast
  from a b c show ?thesis using uv tp by simp
qed

theorem result_fields_counterexample:
  "map_of (the (map_of (projr (interpolate_uv_at_flight_levels cast_x86 scenario_hgt scenario_u
      scenario_v)) 150)) ''speed'' = None
   \<and> map_of (the (map_of (projr (interpolate_uv_at_flight_levels cast_x86 scenario_hgt
      scenario_u scenario_v)) 150)) ''dir'' = None
   \<and> map_of (fst (interpolate_uv_temp_at_flight_levels scenario_hgt scenario_u scenario_v
      scenario_t)) (150, ''u'') = None
   \<and> map_of (fst (interpolate_uv_temp_at_flight_levels scenario_hgt scenario_u scenario_v
      scenario_t)) (150, ''v'') = None"
proof -
  from scenario_uv_runs obtain out where
    uv: "interpolate_uv_at_flight_levels cast_x86 scenario_hgt scenario_u scenario_v = Inr out"
    by blast
  from scenario_temp_runs obtain files where
    tp: "interpolate_uv_temp_at_flight_levels scenario_hgt scenario_u scenario_v scenario_t
      = (files, None)" by blast
  have m: "(150::int) \<in> set fl_target" by (simp add: fl_target_mem)
  from uv_result_fields(2) [OF uv m] obtain gu gv where
    "map_of out 150 = Some [(''u'', gu), (''v'', gv)]" by blast
  then have a: "map_of (the (map_of out 150)) ''speed'' = None"
    "map_of (the (map_of out 150)) ''dir'' = None" by simp_all
  from temp_result_files(2) [OF tp m] obtain gt gd gs where
    look: "\<And>n. map_of files (150 :: int, n)
        = map_of [((150 :: int, ''Temp''), gt), ((150, ''Dir''), gd), ((150, ''Spd''), gs)]
            (150, n)"
    by blast
  have b: "map_of files (150, ''u'') = None" "map_of files (150, ''v'') = None"
    by (simp_all add: look)
  from a b show ?thesis using uv tp by simp
qed



text \<open>
  Claim C10. In the temperature routine a NaN at any level of the temperature profile of
  a grid point is enough to leave the wind speed, the wind direction and the temperature
  of that point blank at every target flight level, whatever the height, U and V
  profiles hold.
\<close>

theorem temperature_nan_blanks_point:
  assumes "interpolate_uv_temp_at_flight_levels h u v t = (files, None)"
    and "fl \<in> set fl_target" and "in_grid h i j" and "has_nan t i j"
  shows "csv_at files fl ''Spd'' i j = Some Blank \<and> csv_at files fl ''Dir'' i j = Some Blank
     \<and> csv_at files fl ''Temp'' i j = Some Blank"
  using temp_nan_output [OF assms(1-3)] assms(4) by simp

theorem temperature_nan_blanks_point_witness:
  "snd (interpolate_uv_temp_at_flight_levels [msg 1000 [[Fin 120]]] [msg 1000 [[Fin 5]]]
          [msg 1000 [[Fin 3]]] [msg 1000 [[NaN]]]) = None
   \<and> csv_at (fst (interpolate_uv_temp_at_flight_levels [msg 1000 [[Fin 120]]]
          [msg 1000 [[Fin 5]]] [msg 1000 [[Fin 3]]] [msg 1000 [[NaN]]])) 0 ''Spd'' 0 0 = Some Blank
   \<and> csv_at (fst (interpolate_uv_temp_at_flight_levels [msg 1000 [[Fin 120]]]
          [msg 1000 [[Fin 5]]] [msg 1000 [[Fin 3]]] [msg 1000 [[NaN]]])) 0 ''Dir'' 0 0 = Some Blank
   \<and> csv_at (fst (interpolate_uv_temp_at_flight_levels [msg 1000 [[Fin 120]]]
          [msg 1000 [[Fin 5]]] [msg 1000 [[Fin 3]]] [msg 1000 [[NaN]]])) 0 ''Temp'' 0 0 = Some Blank"
proof -
  let ?h = "[msg 1000 [[Fin 120]]]" and ?u = "[msg 1000 [[Fin 5]]]"
  and ?v = "[msg 1000 [[Fin 3]]]" and ?t = "[msg 1000 [[NaN]]]"
  have "\<exists>files. interpolate_uv_temp_at_flight_levels ?h ?u ?v ?t = (files, None)"
    unfolding temp_runs_iff by (simp add: fixture)
  then obtain files where
    run: "interpolate_uv_temp_at_flight_levels ?h ?u ?v ?t = (files, None)" ..
  have pt: "in_grid ?h 0 0" by (simp add: fixture)
  have nan: "has_nan ?t 0 0" by (simp add: fixture)
  from temperature_nan_blanks_point [OF run fl_target_nonempty pt nan] run
  show ?thesis by simp
qed

end
